theory Spec2Isabelle
  imports Complex_Main "HOL-Library.Log_Nat"
begin

section \<open>JavaScript numbers\<close>

text \<open>
  Every number of \<^verbatim>\<open>main.js\<close> is an IEEE-754 binary64 value. A finite double is
  represented by the real number it denotes, and every arithmetic operation rounds its
  exact result to the nearest double, ties to even (\<open>rnd\<close>). Infinities and NaN are
  outside the model: no quantity of the game loop comes near \<open>2 ^ 1024\<close>.
\<close>

definition rne :: "real \<Rightarrow> int" where
  "rne q = (let f = \<lfloor>q\<rfloor>; d = q - of_int f in
     if d < 1 / 2 then f else if 1 / 2 < d then f + 1 else if even f then f else f + 1)"

definition ilog2 :: "real \<Rightarrow> int" where
  "ilog2 x = (if 1 \<le> x then bitlen \<lfloor>x\<rfloor> - 1 else - bitlen (\<lceil>1 / x\<rceil> - 1))"

definition pow2 :: "int \<Rightarrow> real" where
  "pow2 e = (if 0 \<le> e then 2 ^ nat e else 1 / 2 ^ nat (- e))"

definition rnd :: "real \<Rightarrow> real" where
  "rnd x = (if x = 0 then 0 else
     let u = pow2 (max (ilog2 \<bar>x\<bar>) (- 1022) - 52) in of_int (rne (x / u)) * u)"

definition fadd :: "real \<Rightarrow> real \<Rightarrow> real" where "fadd a b = rnd (a + b)"
definition fsub :: "real \<Rightarrow> real \<Rightarrow> real" where "fsub a b = rnd (a - b)"
definition fmul :: "real \<Rightarrow> real \<Rightarrow> real" where "fmul a b = rnd (a * b)"
definition fdiv :: "real \<Rightarrow> real \<Rightarrow> real" where "fdiv a b = rnd (a / b)"

section \<open>Constants and planet configuration\<close>

definition Math_PI :: real where "Math_PI = 884279719003555 / 281474976710656"
definition MAX_Y_ROTATION :: real where "MAX_Y_ROTATION = Math_PI"
definition MAX_X_ROTATION :: real where "MAX_X_ROTATION = fdiv Math_PI 3"
definition ROTATION_SPEED :: real where "ROTATION_SPEED = rnd (3 / 100)"
definition CAMERA_RETURN_SPEED :: real where "CAMERA_RETURN_SPEED = rnd (8 / 1000)"
definition CUBE_SIZE :: real where "CUBE_SIZE = 1600"
definition AVATAR_MOVEMENT_SPEED :: real where "AVATAR_MOVEMENT_SPEED = 2"
definition AVATAR_ROTATION_SPEED :: real where "AVATAR_ROTATION_SPEED = rnd (1 / 100)"
definition LASER_MAX_DURATION :: real where "LASER_MAX_DURATION = 5"
definition LASER_COOLDOWN_DURATION :: real where "LASER_COOLDOWN_DURATION = rnd (5 / 10)"
definition GAME_DURATION :: real where "GAME_DURATION = 300"

datatype category = Common | Exotic | Rare

record config =
  count :: nat
  minPoints :: int
  maxPoints :: int
  minSize :: real
  maxSize :: real
  minDistance :: real
  maxDistance :: real

fun PLANET_CONFIG :: "category \<Rightarrow> config" where
  "PLANET_CONFIG Common = \<lparr>count = 40, minPoints = 50, maxPoints = 150,
     minSize = 90, maxSize = 100, minDistance = 2400, maxDistance = 3000\<rparr>"
| "PLANET_CONFIG Exotic = \<lparr>count = 14, minPoints = 200, maxPoints = 350,
     minSize = 100, maxSize = 130, minDistance = 2600, maxDistance = 3200\<rparr>"
| "PLANET_CONFIG Rare = \<lparr>count = 6, minPoints = 500, maxPoints = 800,
     minSize = 120, maxSize = 180, minDistance = 2500, maxDistance = 3500\<rparr>"

section \<open>Scene objects and game state\<close>

text \<open>
  \<open>addFancyPlanet\<close> builds a group whose child 0 is the planet mesh, the only object
  that carries \<open>userData\<close> (\<open>points\<close>, \<open>category\<close>, \<open>material\<close>); the further children
  are decoration (particles for common, a ring for exotic, a glow and two moons for rare)
  with the empty \<open>userData\<close> of a fresh three.js object. \<open>swag\<close> counts them. \<open>ident\<close>
  stands for the object's identity.
\<close>

record userData =
  points :: int
  category :: category

record planetGroup =
  ident :: nat
  planet :: userData
  swag :: nat

record vec3 =
  vx :: real
  vy :: real
  vz :: real

record avatar =
  position :: vec3
  rotation_y :: real

record controls =
  forward :: bool
  backward :: bool
  rotateLeft :: bool
  rotateRight :: bool
  up :: bool
  down :: bool
  cameraLeft :: bool
  cameraRight :: bool
  cameraUp :: bool
  cameraDown :: bool

text \<open>The laser mesh; it remembers the pointer coordinates its direction was built from.\<close>

datatype beam = Beam real real

record game =
  planets :: "planetGroup list"
  nextId :: nat
  score :: int
  gameTime :: real
  gameOver :: bool
  laserActive :: bool
  laserTime :: real
  cooldownTime :: real
  cameraAngleX :: real
  cameraAngleY :: real
  laser :: "beam option"
  avatar :: "avatar option"
  avatarHead :: "vec3 option"
  controls :: controls

text \<open>
  A statement that reads a property of \<open>undefined\<close> or \<open>null\<close> throws a TypeError. The
  assignments made before it stay, so a throwing function returns the state it reached.
\<close>

datatype completion = Normal | TypeError

section \<open>Planet creation\<close>

definition addFancyPlanet :: "category \<Rightarrow> int \<Rightarrow> game \<Rightarrow> game" where
  "addFancyPlanet cat pts s =
     s\<lparr>planets := planets s @
          [\<lparr>ident = nextId s, planet = \<lparr>points = pts, category = cat\<rparr>,
            swag = (case cat of Common \<Rightarrow> 1 | Exotic \<Rightarrow> 1 | Rare \<Rightarrow> 3)\<rparr>],
       nextId := Suc (nextId s)\<rparr>"

text \<open>
  \<open>random\<close> gives the value \<open>Math.random()\<close> returns for the points of the planet
  that gets the given identity; position, size and colour are cosmetic.
\<close>

definition createSinglePlanet :: "(nat \<Rightarrow> real) \<Rightarrow> category \<Rightarrow> game \<Rightarrow> game" where
  "createSinglePlanet random cat s =
     (let config = PLANET_CONFIG cat;
          pts = \<lfloor>fmul (random (nextId s)) (of_int (maxPoints config - minPoints config + 1))\<rfloor>
                + minPoints config
      in addFancyPlanet cat pts s)"

text \<open>
  \<^verbatim>\<open>main.js\<close> declares \<open>createPlanetCategory\<close> twice at top level of a classic script.
  The later declaration, which loops \<open>config.count\<close> times and has no \<open>count\<close>
  parameter, is the one bound to the name; the second argument that \<open>createPlanets\<close>
  passes (40, 40, 20) is ignored.
\<close>

definition createPlanetCategory :: "(nat \<Rightarrow> real) \<Rightarrow> category \<Rightarrow> game \<Rightarrow> game" where
  "createPlanetCategory random cat s =
     (createSinglePlanet random cat ^^ count (PLANET_CONFIG cat)) s"

definition createPlanets :: "(nat \<Rightarrow> real) \<Rightarrow> game \<Rightarrow> game" where
  "createPlanets random s =
     createPlanetCategory random Rare
       (createPlanetCategory random Exotic
         (createPlanetCategory random Common (s\<lparr>planets := []\<rparr>)))"

section \<open>Registry maintenance\<close>

definition countOf :: "category \<Rightarrow> planetGroup list \<Rightarrow> nat" where
  "countOf cat ps = length (filter (\<lambda>p. category (planet p) = cat) ps)"

text \<open>
  One iteration of the spawn loop (the counts are the constants taken before the loop),
  and one \<open>planets.shift()\<close> of the removal loop.
\<close>

definition spawnOne :: "(nat \<Rightarrow> real) \<Rightarrow> nat \<Rightarrow> nat \<Rightarrow> nat \<Rightarrow> game \<Rightarrow> game" where
  "spawnOne random commonCount exoticCount rareCount s =
     (if commonCount < 40 then createSinglePlanet random Common s
      else if exoticCount < 40 then createSinglePlanet random Exotic s
      else if rareCount < 20 then createSinglePlanet random Rare s
      else s)"

definition shiftPlanet :: "game \<Rightarrow> game" where
  "shiftPlanet s = s\<lparr>planets := tl (planets s)\<rparr>"

definition updatePlanets :: "(nat \<Rightarrow> real) \<Rightarrow> game \<Rightarrow> game" where
  "updatePlanets random s =
     (let commonCount = countOf Common (planets s);
          exoticCount = countOf Exotic (planets s);
          rareCount = countOf Rare (planets s);
          s1 = (if length (planets s) < 100
                then (let toAdd = min (100 - length (planets s)) 5
                      in (spawnOne random commonCount exoticCount rareCount ^^ toAdd) s)
                else s)
      in if length (planets s1) > 100
         then (let toRemove = length (planets s1) - 100 in (shiftPlanet ^^ toRemove) s1)
         else s1)"

section \<open>Laser\<close>

text \<open>
  \<open>Raycaster.intersectObjects(planets)\<close> of three.js r134 tests every object below
  the listed groups and returns the hits sorted by ascending distance. What the ray
  geometrically hits is an input: \<open>ray g i\<close> lists the distances at which this frame's
  laser ray meets child \<open>i\<close> of group \<open>g\<close>.
\<close>

record intersection =
  distance :: real
  parent :: planetGroup
  child :: nat

definition intersectObjects ::
    "(planetGroup \<Rightarrow> nat \<Rightarrow> real list) \<Rightarrow> planetGroup list \<Rightarrow> intersection list" where
  "intersectObjects ray ps =
     sort_key distance
       (concat (map (\<lambda>g. concat (map (\<lambda>i. map (\<lambda>d. \<lparr>distance = d, parent = g, child = i\<rparr>)
                                              (ray g i))
                                  [0 ..< Suc (swag g)]))
                    ps))"

text \<open>
  \<open>userData\<close> as the laser code reads it from the hit object: child 0 has \<open>points\<close>,
  \<open>category\<close> and \<open>material\<close>, any other child has none of them (\<open>undefined\<close>).
\<close>

record objectData =
  hitPoints :: "int option"
  hitCategory :: "category option"
  hasMaterial :: bool

definition objectUserData :: "intersection \<Rightarrow> objectData" where
  "objectUserData h =
     (if child h = 0
      then \<lparr>hitPoints = Some (points (planet (parent h))),
            hitCategory = Some (category (planet (parent h))), hasMaterial = True\<rparr>
      else \<lparr>hitPoints = None, hitCategory = None, hasMaterial = False\<rparr>)"

text \<open>\<open>planet.userData.points ?? (rare ? 30 : exotic ? 20 : 10)\<close>\<close>

definition pointsFor :: "objectData \<Rightarrow> int" where
  "pointsFor ud =
     (case hitPoints ud of
        Some p \<Rightarrow> p
      | None \<Rightarrow> (if hitCategory ud = Some Rare then 30
                 else if hitCategory ud = Some Exotic then 20 else 10))"

fun indexOf :: "'a list \<Rightarrow> 'a \<Rightarrow> int" where
  "indexOf [] a = - 1"
| "indexOf (b # bs) a =
     (if b = a then 0 else (let i = indexOf bs a in if i < 0 then - 1 else i + 1))"

text \<open>\<open>xs.splice(i, 1)\<close>: a negative start counts from the end.\<close>

definition splice1 :: "'a list \<Rightarrow> int \<Rightarrow> 'a list" where
  "splice1 xs i =
     (let n = int (length xs);
          start = (if i < 0 then max (n + i) 0 else min i n)
      in take (nat start) xs @ drop (Suc (nat start)) xs)"

text \<open>
  The closing block of a firing frame, \<open>if (laserTime >= LASER_MAX_DURATION) {...}\<close>:
  with \<open>laser\<close> null, \<open>laser.userData\<close> throws after \<open>laserActive\<close> was cleared.
\<close>

definition laserTimeout :: "game \<Rightarrow> completion \<times> game" where
  "laserTimeout s =
     (if laserTime s \<ge> LASER_MAX_DURATION
      then (case laser s of
              None \<Rightarrow> (TypeError, s\<lparr>laserActive := False\<rparr>)
            | Some b \<Rightarrow> (Normal, s\<lparr>laserActive := False, laser := None,
                                   cooldownTime := LASER_COOLDOWN_DURATION\<rparr>))
      else (Normal, s))"

definition updateLaser ::
    "(planetGroup \<Rightarrow> nat \<Rightarrow> real list) \<Rightarrow> game \<Rightarrow> completion \<times> game" where
  "updateLaser ray s =
     (if avatar s = None \<or> avatarHead s = None then (Normal, s)
      else if laserActive s then
        (let s1 = s\<lparr>laserTime := fadd (laserTime s) (fdiv 1 60)\<rparr> in
         case laser s1 of
           None \<Rightarrow> laserTimeout s1
         | Some b \<Rightarrow>
            (case intersectObjects ray (planets s1) of
               [] \<Rightarrow> laserTimeout s1
             | h # rest \<Rightarrow>
                (let planetGroup = parent h;
                     ud = objectUserData h;
                     s2 = s1\<lparr>score := score s1 + pointsFor ud,
                             planets := splice1 (planets s1) (indexOf (planets s1) planetGroup)\<rparr>
                 in if hasMaterial ud then laserTimeout s2 else (TypeError, s2))))
      else if cooldownTime s > 0
        then (Normal, s\<lparr>cooldownTime := fsub (cooldownTime s) (fdiv 1 60)\<rparr>)
        else (Normal, s))"

definition handleMouseDown :: "real \<Rightarrow> real \<Rightarrow> game \<Rightarrow> completion \<times> game" where
  "handleMouseDown clientX clientY s =
     (if \<not> laserActive s \<and> cooldownTime s \<le> 0
      then (let s1 = s\<lparr>laserActive := True, laserTime := 0\<rparr> in
            case avatarHead s1 of
              None \<Rightarrow> (TypeError, s1)
            | Some h \<Rightarrow> (Normal, s1\<lparr>laser := Some (Beam clientX clientY)\<rparr>))
      else (Normal, s))"

definition handleMouseUp :: "game \<Rightarrow> game" where
  "handleMouseUp s =
     (if laserActive s then s\<lparr>laserActive := False, laser := None, cooldownTime := 0\<rparr>
      else s)"


section \<open>Clock, avatar, camera\<close>

definition endGame :: "game \<Rightarrow> game" where
  "endGame s = s\<lparr>gameOver := True, laserActive := False, laser := None\<rparr>"

definition updateGameTime :: "game \<Rightarrow> game" where
  "updateGameTime s =
     (if gameOver s then s
      else (let s1 = s\<lparr>gameTime := fadd (gameTime s) (fdiv 1 60)\<rparr>;
                remainingTime = max 0 (fsub GAME_DURATION (gameTime s1))
            in if remainingTime \<le> 0 then endGame s1 else s1))"

text \<open>
  \<open>applyQuaternion r\<close> is the vector three.js computes for
  \<open>new THREE.Vector3(0, 0, -1).applyQuaternion(avatar.quaternion)\<close> when the avatar's
  rotation about the vertical axis is \<open>r\<close>.
\<close>

definition clampCube :: "real \<Rightarrow> real" where
  "clampCube a = (let halfSize = fdiv CUBE_SIZE 2 in max (- halfSize) (min halfSize a))"

definition updateAvatarMovement :: "(real \<Rightarrow> vec3) \<Rightarrow> game \<Rightarrow> game" where
  "updateAvatarMovement applyQuaternion s =
     (case avatar s of
        None \<Rightarrow> s
      | Some a \<Rightarrow>
         (case avatarHead s of
            None \<Rightarrow> s
          | Some h \<Rightarrow>
             (let c = controls s;
                  r1 = (if rotateLeft c then fadd (rotation_y a) AVATAR_ROTATION_SPEED
                        else rotation_y a);
                  r2 = (if rotateRight c then fsub r1 AVATAR_ROTATION_SPEED else r1);
                  direction = applyQuaternion r2;
                  p0 = position a;
                  p1 = (if forward c
                        then p0\<lparr>vx := fsub (vx p0) (fmul (vx direction) AVATAR_MOVEMENT_SPEED),
                               vz := fsub (vz p0) (fmul (vz direction) AVATAR_MOVEMENT_SPEED)\<rparr>
                        else p0);
                  p2 = (if backward c
                        then p1\<lparr>vx := fadd (vx p1) (fmul (vx direction) AVATAR_MOVEMENT_SPEED),
                               vz := fadd (vz p1) (fmul (vz direction) AVATAR_MOVEMENT_SPEED)\<rparr>
                        else p1);
                  p3 = (if up c then p2\<lparr>vy := fadd (vy p2) AVATAR_MOVEMENT_SPEED\<rparr> else p2);
                  p4 = (if down c then p3\<lparr>vy := fsub (vy p3) AVATAR_MOVEMENT_SPEED\<rparr> else p3);
                  p5 = \<lparr>vx = clampCube (vx p4), vy = clampCube (vy p4), vz = clampCube (vz p4)\<rparr>
              in s\<lparr>avatar := Some \<lparr>position = p5, rotation_y = r2\<rparr>,
                   avatarHead := Some \<lparr>vx = vx p5, vy = fadd (vy p5) 3, vz = vz p5\<rparr>\<rparr>)))"

definition updateCamera :: "game \<Rightarrow> game" where
  "updateCamera s =
     (case avatar s of
        None \<Rightarrow> s
      | Some a \<Rightarrow>
         (let c = controls s;
              y1 = (if cameraLeft c then min MAX_Y_ROTATION (fadd (cameraAngleY s) ROTATION_SPEED)
                    else cameraAngleY s);
              y2 = (if cameraRight c then max (- MAX_Y_ROTATION) (fsub y1 ROTATION_SPEED) else y1);
              x1 = (if cameraUp c then min MAX_X_ROTATION (fadd (cameraAngleX s) ROTATION_SPEED)
                    else cameraAngleX s);
              x2 = (if cameraDown c then max (- MAX_X_ROTATION) (fsub x1 ROTATION_SPEED) else x1);
              y3 = (if \<not> cameraLeft c \<and> \<not> cameraRight c
                    then fmul y2 (fsub 1 CAMERA_RETURN_SPEED) else y2);
              x3 = (if \<not> cameraUp c \<and> \<not> cameraDown c
                    then fmul x2 (fsub 1 CAMERA_RETURN_SPEED) else x2)
          in s\<lparr>cameraAngleY := y3, cameraAngleX := x3\<rparr>))"

section \<open>Game loop and restart\<close>

record env =
  quat :: "real \<Rightarrow> vec3"
  ray :: "planetGroup \<Rightarrow> nat \<Rightarrow> real list"
  random :: "nat \<Rightarrow> real"

text \<open>
  One frame. An exception thrown by \<open>updateLaser\<close> leaves the callback, so
  \<open>updatePlanets\<close> is skipped in that frame; the next frame was requested before.
\<close>

definition animate :: "env \<Rightarrow> game \<Rightarrow> game" where
  "animate e s =
     (if gameOver s then s
      else (let s1 = updateGameTime s;
                s2 = updateAvatarMovement (quat e) s1;
                s3 = updateCamera s2
            in case updateLaser (ray e) s3 of
                 (TypeError, s4) \<Rightarrow> s4
               | (Normal, s4) \<Rightarrow> updatePlanets (random e) s4))"

text \<open>
  The restart button's click handler: its assignments (\<open>restartReset\<close>), then the call
  of \<open>animate\<close>.
\<close>

definition restartReset :: "(nat \<Rightarrow> real) \<Rightarrow> game \<Rightarrow> game" where
  "restartReset rand s =
     (let s1 = s\<lparr>gameOver := False, gameTime := 0, score := 0, laserActive := False,
                 cooldownTime := 0, laserTime := 0, laser := None\<rparr>;
          s2 = (case avatar s1 of
                  None \<Rightarrow> s1
                | Some a \<Rightarrow> s1\<lparr>avatar := Some (a\<lparr>position := \<lparr>vx = 0, vy = 0, vz = 0\<rparr>\<rparr>)\<rparr>)
      in createPlanets rand (s2\<lparr>planets := []\<rparr>))"

definition restart :: "env \<Rightarrow> game \<Rightarrow> game" where
  "restart e s = animate e (restartReset (random e) s)"

section \<open>Input events\<close>









text \<open>
  The state a frame hands to \<open>updatePlanets\<close>, and the numbers of planets a maintenance
  pass creates (each creation takes one fresh identity) and removes.
\<close>

definition beforePlanets :: "env \<Rightarrow> game \<Rightarrow> game" where
  "beforePlanets e s =
     snd (updateLaser (ray e) (updateCamera (updateAvatarMovement (quat e) (updateGameTime s))))"

definition created :: "(nat \<Rightarrow> real) \<Rightarrow> game \<Rightarrow> nat" where
  "created rand s = nextId (updatePlanets rand s) - nextId s"

definition removed :: "(nat \<Rightarrow> real) \<Rightarrow> game \<Rightarrow> nat" where
  "removed rand s =
     length (planets s) + created rand s - length (planets (updatePlanets rand s))"

section \<open>Start-up state and the laser's three states\<close>

text \<open>
  The initial values of the globals, with the avatar and its head as the loader's
  callback creates them; \<open>boot\<close> is the state in which the first frame runs.
\<close>

definition globals0 :: game where
  "globals0 = \<lparr>planets = [], nextId = 0, score = 0, gameTime = 0, gameOver = False,
     laserActive = False, laserTime = 0, cooldownTime = 0, cameraAngleX = 0,
     cameraAngleY = 0, laser = None,
     avatar = Some \<lparr>position = \<lparr>vx = 0, vy = 0, vz = 0\<rparr>, rotation_y = 0\<rparr>,
     avatarHead = Some \<lparr>vx = 0, vy = 3 / 2, vz = 0\<rparr>,
     controls = \<lparr>forward = False, backward = False, rotateLeft = False,
       rotateRight = False, up = False, down = False, cameraLeft = False,
       cameraRight = False, cameraUp = False, cameraDown = False\<rparr>\<rparr>"

definition boot :: "(nat \<Rightarrow> real) \<Rightarrow> game" where
  "boot rand = createPlanets rand globals0"

text \<open>The state \<open>init\<close> leaves while the avatar is still loading.\<close>

definition start :: "(nat \<Rightarrow> real) \<Rightarrow> game" where
  "start rand = createPlanets rand (globals0\<lparr>avatar := None, avatarHead := None\<rparr>)"

text \<open>
  The specification's \<open>Idle\<close>, \<open>Firing\<close> and \<open>Cooldown\<close> are read off the variables
  \<open>laserActive\<close> and \<open>cooldownTime\<close> as \<open>handleMouseDown\<close> and \<open>updateLaser\<close> test them.
\<close>

definition Idle :: "game \<Rightarrow> bool" where
  "Idle s = (\<not> laserActive s \<and> cooldownTime s \<le> 0)"

definition Firing :: "game \<Rightarrow> bool" where
  "Firing s = laserActive s"

definition Cooldown :: "game \<Rightarrow> bool" where
  "Cooldown s = (\<not> laserActive s \<and> 0 < cooldownTime s)"

section \<open>Counting the registry\<close>

text \<open>
  The first of common, exotic, rare whose count is below the number \<open>updatePlanets\<close>
  compares it with (40, 40, 20), if there is one.
\<close>

definition firstBelow :: "planetGroup list \<Rightarrow> category option" where
  "firstBelow ps = (if countOf Common ps < 40 then Some Common
                    else if countOf Exotic ps < 40 then Some Exotic
                    else if countOf Rare ps < 20 then Some Rare else None)"

definition counts :: "game \<Rightarrow> nat \<times> nat \<times> nat" where
  "counts s = (countOf Common (planets s), countOf Exotic (planets s),
               countOf Rare (planets s))"

text \<open>The effect of one maintenance pass on the three counts, while the total is at most 100.\<close>

fun passCounts :: "nat \<times> nat \<times> nat \<Rightarrow> nat \<times> nat \<times> nat" where
  "passCounts (c, e, r) =
     (if c + e + r < 100
      then (let k = min (100 - (c + e + r)) 5
            in if c < 40 then (c + k, e, r)
               else if e < 40 then (c, e + k, r)
               else if r < 20 then (c, e, r + k)
               else (c, e, r))
      else (c, e, r))"

section \<open>Avatar bounds\<close>

text \<open>
  The closed cube \<open>[-800, 800]\<close> in each coordinate, and a sequence of movement
  updates, each under the control state in force at that frame.
\<close>

definition inCube :: "vec3 \<Rightarrow> bool" where
  "inCube p = (- 800 \<le> vx p \<and> vx p \<le> 800 \<and> - 800 \<le> vy p \<and> vy p \<le> 800
               \<and> - 800 \<le> vz p \<and> vz p \<le> 800)"

definition moves :: "(real \<Rightarrow> vec3) \<Rightarrow> game \<Rightarrow> controls list \<Rightarrow> game" where
  "moves q s cs = foldl (\<lambda>t c. updateAvatarMovement q (t\<lparr>controls := c\<rparr>)) s cs"

section \<open>Example registries for the laser\<close>

text \<open>
  Two planets on one ray, the later-created one nearer; and a single exotic planet whose
  ring the ray meets before its sphere.
\<close>

definition farCommon :: planetGroup where
  "farCommon = \<lparr>ident = 0, planet = \<lparr>points = 100, category = Common\<rparr>, swag = 1\<rparr>"

definition nearExotic :: planetGroup where
  "nearExotic = \<lparr>ident = 1, planet = \<lparr>points = 300, category = Exotic\<rparr>, swag = 1\<rparr>"

definition firingAt :: "planetGroup list \<Rightarrow> game" where
  "firingAt ps = globals0\<lparr>planets := ps, nextId := length ps, laserActive := True,
                          laser := Some (Beam 0 0)\<rparr>"

definition bothSpheres :: "planetGroup \<Rightarrow> nat \<Rightarrow> real list" where
  "bothSpheres g i = (if i = 0 then (if ident g = 0 then [2600] else [2500]) else [])"

definition ringThenSphere :: "planetGroup \<Rightarrow> nat \<Rightarrow> real list" where
  "ringThenSphere g i = (if i = 0 then [2600] else [2500])"

section \<open>Laser frames\<close>

text \<open>
  A run of frames seen by the laser alone, one ray per frame, and the effect of
  \<open>updateLaser\<close> on \<open>laserActive\<close>, \<open>laserTime\<close> and \<open>cooldownTime\<close> in a frame that
  does not throw.
\<close>

definition laserFrames :: "game \<Rightarrow> (planetGroup \<Rightarrow> nat \<Rightarrow> real list) list \<Rightarrow> game" where
  "laserFrames s rs = foldl (\<lambda>t r. snd (updateLaser r t)) s rs"

definition laserVars :: "game \<Rightarrow> bool \<times> real \<times> real" where
  "laserVars s = (laserActive s, laserTime s, cooldownTime s)"

fun laserClock :: "bool \<times> real \<times> real \<Rightarrow> bool \<times> real \<times> real" where
  "laserClock (active, t, c) =
     (if active
      then (let t' = fadd t (fdiv 1 60)
            in if t' \<ge> LASER_MAX_DURATION then (False, t', LASER_COOLDOWN_DURATION)
               else (True, t', c))
      else if c > 0 then (False, t, fsub c (fdiv 1 60)) else (False, t, c))"

definition noHit :: "planetGroup \<Rightarrow> nat \<Rightarrow> real list" where
  "noHit g i = []"

section \<open>Camera return\<close>

text \<open>
  \<open>angle *= 1 - CAMERA_RETURN_SPEED\<close>, the update of a released camera axis. Every
  finite double is an integer multiple of \<open>2\<^sup>-\<^sup>1\<^sup>0\<^sup>7\<^sup>4\<close>; that is all the decay
  properties need of the initial angles.
\<close>

definition decay :: "real \<Rightarrow> real" where
  "decay a = fmul a (fsub 1 CAMERA_RETURN_SPEED)"

definition onDoubleGrid :: "real \<Rightarrow> bool" where
  "onDoubleGrid a = (a / pow2 (- 1074) \<in> \<int>)"

section \<open>Further example registries\<close>

text \<open>
  A common planet whose sphere the ray meets at 2550 and, behind it, a rare planet whose
  moon (child 2) lies in front, at 2389, its sphere at 2701. A full registry of 100
  planets in the settled distribution 40/44/16, and a ray that meets every planet's
  sphere and no decoration.
\<close>

definition nearCommon :: planetGroup where
  "nearCommon = \<lparr>ident = 0, planet = \<lparr>points = 100, category = Common\<rparr>, swag = 1\<rparr>"

definition farRare :: planetGroup where
  "farRare = \<lparr>ident = 1, planet = \<lparr>points = 600, category = Rare\<rparr>, swag = 3\<rparr>"

definition moonThenSpheres :: "planetGroup \<Rightarrow> nat \<Rightarrow> real list" where
  "moonThenSpheres g i =
     (if ident g = 0 then (if i = 0 then [2550] else [])
      else (if i = 0 then [2701] else if i = 2 then [2389] else []))"





section \<open>Release while firing\<close>

text \<open>
  C8. A pointer-up while the laser is firing switches it off and sets the cooldown to
  zero, whatever the elapsed burn time is: the laser is idle at once, and the next
  pointer-down is accepted and starts a new burn at elapsed time 0.
\<close>

theorem release_while_firing_goes_idle:
  assumes "Firing s"
  shows "Idle (handleMouseUp s) \<and> cooldownTime (handleMouseUp s) = 0
         \<and> laser (handleMouseUp s) = None
         \<and> Firing (snd (handleMouseDown cx cy (handleMouseUp s)))
         \<and> laserTime (snd (handleMouseDown cx cy (handleMouseUp s))) = 0"
  using assms
  by (simp add: Firing_def Idle_def handleMouseUp_def handleMouseDown_def Let_def
      split: option.split)

theorem release_while_firing_goes_idle_witness:
  "Firing (globals0\<lparr>laserActive := True, laserTime := 2, laser := Some (Beam 10 20)\<rparr>)
   \<and> Idle (handleMouseUp (globals0\<lparr>laserActive := True, laserTime := 2,
                                     laser := Some (Beam 10 20)\<rparr>))
   \<and> cooldownTime (handleMouseUp (globals0\<lparr>laserActive := True, laserTime := 2,
                                     laser := Some (Beam 10 20)\<rparr>)) = 0"
proof -
  have f: "Firing (globals0\<lparr>laserActive := True, laserTime := 2, laser := Some (Beam 10 20)\<rparr>)"
    by (simp add: Firing_def)
  from release_while_firing_goes_idle [OF f, of 0 0] f show ?thesis by blast
qed

section \<open>Planet creation and maintenance: auxiliary facts\<close>

lemma createSinglePlanet_frame:
  "\<exists>g. createSinglePlanet r c s = s\<lparr>planets := planets s @ [g], nextId := Suc (nextId s)\<rparr>
       \<and> category (planet g) = c \<and> ident g = nextId s"
proof -
  let ?g = "last (planets (createSinglePlanet r c s))"
  have "createSinglePlanet r c s = s\<lparr>planets := planets s @ [?g], nextId := Suc (nextId s)\<rparr>
        \<and> category (planet ?g) = c \<and> ident ?g = nextId s"
    by (simp add: createSinglePlanet_def addFancyPlanet_def Let_def)
  then show ?thesis by blast
qed

lemma createMany_frame:
  "\<exists>new. (createSinglePlanet r c ^^ n) s = s\<lparr>planets := planets s @ new, nextId := nextId s + n\<rparr>
       \<and> length new = n \<and> (\<forall>g\<in>set new. category (planet g) = c)"
proof (induction n)
  case 0
  show ?case by simp
next
  case (Suc n)
  then obtain new where new:
    "(createSinglePlanet r c ^^ n) s = s\<lparr>planets := planets s @ new, nextId := nextId s + n\<rparr>"
    "length new = n" "\<forall>g\<in>set new. category (planet g) = c"
    by blast
  let ?t = "s\<lparr>planets := planets s @ new, nextId := nextId s + n\<rparr>"
  obtain g where g: "createSinglePlanet r c ?t = ?t\<lparr>planets := planets ?t @ [g], nextId := Suc (nextId ?t)\<rparr>"
    "category (planet g) = c"
    using createSinglePlanet_frame [of r c ?t] by blast
  have "(createSinglePlanet r c ^^ Suc n) s
        = s\<lparr>planets := planets s @ (new @ [g]), nextId := nextId s + Suc n\<rparr>"
    using new(1) g(1) by simp
  moreover have "length (new @ [g]) = Suc n" using new(2) by simp
  moreover have "\<forall>h\<in>set (new @ [g]). category (planet h) = c" using new(3) g(2) by simp
  ultimately show ?case by blast
qed

lemma countOf_append: "countOf c (ps @ qs) = countOf c ps + countOf c qs"
  by (simp add: countOf_def)

lemma countOf_uniform:
  "\<forall>g\<in>set new. category (planet g) = c' \<Longrightarrow> countOf c new = (if c = c' then length new else 0)"
  by (induction new) (auto simp: countOf_def)

lemma countOf_total:
  "countOf Common ps + countOf Exotic ps + countOf Rare ps = length ps"
proof (induction ps)
  case Nil
  show ?case by (simp add: countOf_def)
next
  case (Cons p ps)
  then show ?case by (cases "category (planet p)") (simp_all add: countOf_def)
qed

lemma shiftMany: "(shiftPlanet ^^ n) s = s\<lparr>planets := drop n (planets s)\<rparr>"
proof (induction n arbitrary: s)
  case 0
  show ?case by simp
next
  case (Suc n)
  have "(shiftPlanet ^^ Suc n) s = shiftPlanet ((shiftPlanet ^^ n) s)" by simp
  also have "\<dots> = shiftPlanet (s\<lparr>planets := drop n (planets s)\<rparr>)" by (simp only: Suc)
  also have "\<dots> = s\<lparr>planets := drop (Suc n) (planets s)\<rparr>"
    by (simp add: shiftPlanet_def drop_Suc tl_drop)
  finally show ?case .
qed

lemma spawnOne_is_create:
  assumes "length ps < 100"
  shows "\<exists>cat. firstBelow ps = Some cat
           \<and> spawnOne r (countOf Common ps) (countOf Exotic ps) (countOf Rare ps)
               = createSinglePlanet r cat"
proof -
  have "countOf Common ps < 40 \<or> countOf Exotic ps < 40 \<or> countOf Rare ps < 20"
    using countOf_total [of ps] assms by linarith
  then show ?thesis
    by (auto simp: spawnOne_def firstBelow_def fun_eq_iff)
qed

lemma updatePlanets_below:
  assumes "length (planets s) < 100"
  shows "\<exists>cat new. firstBelow (planets s) = Some cat
         \<and> updatePlanets r s
            = s\<lparr>planets := planets s @ new, nextId := nextId s + length new\<rparr>
         \<and> length new = min (100 - length (planets s)) 5
         \<and> (\<forall>g\<in>set new. category (planet g) = cat)"
proof -
  let ?k = "min (100 - length (planets s)) 5"
  obtain cat where cat: "firstBelow (planets s) = Some cat"
    "spawnOne r (countOf Common (planets s)) (countOf Exotic (planets s))
       (countOf Rare (planets s)) = createSinglePlanet r cat"
    using spawnOne_is_create [OF assms] by blast
  obtain new where new:
    "(createSinglePlanet r cat ^^ ?k) s
       = s\<lparr>planets := planets s @ new, nextId := nextId s + ?k\<rparr>"
    "length new = ?k" "\<forall>g\<in>set new. category (planet g) = cat"
    using createMany_frame [where r = r and c = cat and n = ?k and s = s]
    by blast
  have len: "\<not> 100 < length (planets s @ new)" using new(2) assms by simp
  have "updatePlanets r s = s\<lparr>planets := planets s @ new, nextId := nextId s + length new\<rparr>"
    using assms new(1) new(2) len
    by (simp add: updatePlanets_def Let_def cat(2))
  then show ?thesis using cat(1) new(2) new(3) by blast
qed

lemma updatePlanets_full: "length (planets s) = 100 \<Longrightarrow> updatePlanets r s = s"
  by (simp add: updatePlanets_def Let_def)

lemma updatePlanets_above:
  "100 < length (planets s) \<Longrightarrow>
   updatePlanets r s = s\<lparr>planets := drop (length (planets s) - 100) (planets s)\<rparr>"
  by (simp add: updatePlanets_def Let_def shiftMany)

lemma createPlanetCategory_frame:
  "\<exists>new. createPlanetCategory r c s
         = s\<lparr>planets := planets s @ new, nextId := nextId s + count (PLANET_CONFIG c)\<rparr>
       \<and> length new = count (PLANET_CONFIG c) \<and> (\<forall>g\<in>set new. category (planet g) = c)"
  unfolding createPlanetCategory_def
  using createMany_frame [where r = r and c = c and n = "count (PLANET_CONFIG c)" and s = s]
  by blast

lemma createPlanets_frame:
  "\<exists>ps. createPlanets r s = s\<lparr>planets := ps, nextId := nextId s + 60\<rparr>
        \<and> countOf Common ps = 40 \<and> countOf Exotic ps = 14 \<and> countOf Rare ps = 6
        \<and> length ps = 60"
proof -
  let ?s0 = "s\<lparr>planets := []\<rparr>"
  obtain a where a: "createPlanetCategory r Common ?s0
      = ?s0\<lparr>planets := planets ?s0 @ a, nextId := nextId ?s0 + count (PLANET_CONFIG Common)\<rparr>"
    "length a = count (PLANET_CONFIG Common)" "\<forall>g\<in>set a. category (planet g) = Common"
    using createPlanetCategory_frame [of r Common ?s0] by blast
  let ?s1 = "createPlanetCategory r Common ?s0"
  obtain b where b: "createPlanetCategory r Exotic ?s1
      = ?s1\<lparr>planets := planets ?s1 @ b, nextId := nextId ?s1 + count (PLANET_CONFIG Exotic)\<rparr>"
    "length b = count (PLANET_CONFIG Exotic)" "\<forall>g\<in>set b. category (planet g) = Exotic"
    using createPlanetCategory_frame [of r Exotic ?s1] by blast
  let ?s2 = "createPlanetCategory r Exotic ?s1"
  obtain c where c: "createPlanetCategory r Rare ?s2
      = ?s2\<lparr>planets := planets ?s2 @ c, nextId := nextId ?s2 + count (PLANET_CONFIG Rare)\<rparr>"
    "length c = count (PLANET_CONFIG Rare)" "\<forall>g\<in>set c. category (planet g) = Rare"
    using createPlanetCategory_frame [of r Rare ?s2] by blast
  have eq: "createPlanets r s = s\<lparr>planets := a @ b @ c, nextId := nextId s + 60\<rparr>"
    apply (simp only: createPlanets_def)
    apply (simp only: c(1))
    apply (simp only: b(1))
    apply (simp only: a(1))
    apply simp
    done
  have "countOf Common (a @ b @ c) = 40" "countOf Exotic (a @ b @ c) = 14"
       "countOf Rare (a @ b @ c) = 6"
    using a(2) b(2) c(2)
    by (simp_all add: countOf_append countOf_uniform [OF a(3)] countOf_uniform [OF b(3)]
        countOf_uniform [OF c(3)])
  moreover have "length (a @ b @ c) = 60" using a(2) b(2) c(2) by simp
  ultimately show ?thesis using eq by blast
qed

lemma counts_updatePlanets:
  assumes "length (planets s) \<le> 100"
  shows "counts (updatePlanets r s) = passCounts (counts s)"
proof (cases "length (planets s) < 100")
  case True
  obtain cat new where h: "firstBelow (planets s) = Some cat"
    "updatePlanets r s = s\<lparr>planets := planets s @ new, nextId := nextId s + length new\<rparr>"
    "length new = min (100 - length (planets s)) 5"
    "\<forall>g\<in>set new. category (planet g) = cat"
    using updatePlanets_below [OF True] by blast
  have tot: "countOf Common (planets s) + countOf Exotic (planets s) + countOf Rare (planets s)
             = length (planets s)"
    by (rule countOf_total)
  show ?thesis
    using h(1) True tot
    by (auto simp: counts_def h(2) h(3) countOf_append countOf_uniform [OF h(4)]
        firstBelow_def split: if_splits)
next
  case False
  then have "length (planets s) = 100" using assms by simp
  then show ?thesis
    using countOf_total [of "planets s"]
    by (simp add: updatePlanets_full counts_def)
qed

lemma length_updatePlanets_le:
  assumes "length (planets s) \<le> 100"
  shows "length (planets (updatePlanets r s)) \<le> 100"
proof (cases "length (planets s) < 100")
  case True
  from updatePlanets_below [OF True, where r = r] True show ?thesis by (auto simp: min_def)
next
  case False
  then show ?thesis using assms by (simp add: updatePlanets_full)
qed

lemma counts_passes:
  assumes "length (planets s) \<le> 100"
  shows "length (planets ((updatePlanets r ^^ n) s)) \<le> 100
         \<and> counts ((updatePlanets r ^^ n) s) = (passCounts ^^ n) (counts s)"
proof (induction n)
  case 0
  show ?case using assms by simp
next
  case (Suc n)
  then show ?case
    by (simp add: length_updatePlanets_le counts_updatePlanets)
qed

lemma passCounts_settled: "(passCounts ^^ k) (40, 44, 16) = (40, 44, 16)"
  by (induction k) simp_all

lemma passCounts_seed: "(passCounts ^^ 8) (40, 14, 6) = (40, 44, 16)"
  by (simp add: eval_nat_numeral)

section \<open>One category per maintenance pass\<close>

text \<open>
  C10. A maintenance pass that starts with fewer than 100 planets appends
  \<open>min (100 - n) 5\<close> new planets (at least one) and nothing else, and all of them have
  the same category: the first of common, exotic, rare whose count at the start of the
  pass is below 40, 40, 20. Such a category exists whenever the total is below 100.
\<close>

theorem maintenance_spawns_one_category:
  assumes "length (planets s) < 100"
  shows "\<exists>cat new. firstBelow (planets s) = Some cat
           \<and> planets (updatePlanets r s) = planets s @ new
           \<and> length new = min (100 - length (planets s)) 5
           \<and> new \<noteq> []
           \<and> (\<forall>g\<in>set new. category (planet g) = cat)"
proof -
  obtain cat new where h: "firstBelow (planets s) = Some cat"
    "updatePlanets r s = s\<lparr>planets := planets s @ new, nextId := nextId s + length new\<rparr>"
    "length new = min (100 - length (planets s)) 5"
    "\<forall>g\<in>set new. category (planet g) = cat"
    using updatePlanets_below [OF assms] by blast
  have "new \<noteq> []" using h(3) assms by auto
  moreover have "planets (updatePlanets r s) = planets s @ new" by (simp add: h(2))
  ultimately show ?thesis using h(1) h(3) h(4) by blast
qed

theorem maintenance_spawns_one_category_witness:
  "length (planets globals0) < 100
   \<and> (\<exists>cat new. firstBelow (planets globals0) = Some cat
         \<and> planets (updatePlanets (\<lambda>i. 0) globals0) = planets globals0 @ new
         \<and> length new = min (100 - length (planets globals0)) 5
         \<and> new \<noteq> []
         \<and> (\<forall>g\<in>set new. category (planet g) = cat))"
proof -
  have h: "length (planets globals0) < 100" by (simp add: globals0_def)
  from maintenance_spawns_one_category [OF h, of "\<lambda>i. 0"] h show ?thesis by blast
qed

section \<open>Where the seeded population settles\<close>

text \<open>
  C1. The registry seeded at start-up holds 40 common, 14 exotic and 6 rare planets.
  Maintenance passes without laser kills bring it to 40 common, 44 exotic and 16 rare
  planets after eight passes, and every later pass leaves these counts as they are: the
  total is 100, the exotic and rare counts are not 40 and 20.
\<close>

theorem seeded_population_settles_off_target:
  "counts ((updatePlanets r ^^ (8 + k)) (boot rand)) = (40, 44, 16)"
proof -
  obtain ps where ps: "boot rand = globals0\<lparr>planets := ps, nextId := nextId globals0 + 60\<rparr>"
    "countOf Common ps = 40" "countOf Exotic ps = 14" "countOf Rare ps = 6" "length ps = 60"
    unfolding boot_def using createPlanets_frame [of rand globals0] by blast
  have c0: "counts (boot rand) = (40, 14, 6)" by (simp add: counts_def ps)
  have len: "length (planets (boot rand)) \<le> 100" by (simp add: ps)
  have "counts ((updatePlanets r ^^ (8 + k)) (boot rand)) = (passCounts ^^ (8 + k)) (40, 14, 6)"
    using counts_passes [OF len, where r = r and n = "8 + k"] c0 by simp
  also have "\<dots> = (passCounts ^^ k) ((passCounts ^^ 8) (40, 14, 6))"
    by (simp only: funpow_add add.commute [of 8 k] o_apply)
  also have "\<dots> = (40, 44, 16)" by (simp only: passCounts_seed passCounts_settled)
  finally show ?thesis .
qed

section \<open>The population never exceeds 100\<close>

lemma updatePlanets_frame: "\<exists>ps n. updatePlanets r s = s\<lparr>planets := ps, nextId := n\<rparr>"
proof -
  consider "length (planets s) < 100" | "length (planets s) = 100" | "100 < length (planets s)"
    by linarith
  then show ?thesis
  proof cases
    case 1
    from updatePlanets_below [OF 1, of r] show ?thesis by blast
  next
    case 2
    have "updatePlanets r s = s\<lparr>planets := planets s, nextId := nextId s\<rparr>"
      by (simp add: updatePlanets_full [OF 2])
    then show ?thesis by blast
  next
    case 3
    have "updatePlanets r s
          = s\<lparr>planets := drop (length (planets s) - 100) (planets s), nextId := nextId s\<rparr>"
      by (simp add: updatePlanets_above [OF 3])
    then show ?thesis by blast
  qed
qed

lemma createPlanets_fields:
  "\<exists>ps n. createPlanets r s = s\<lparr>planets := ps, nextId := n\<rparr> \<and> length ps = 60
     \<and> countOf Common ps = 40 \<and> countOf Exotic ps = 14 \<and> countOf Rare ps = 6"
  using createPlanets_frame [of r s] by blast

lemma length_splice1: "length (splice1 xs i) \<le> length xs"
  by (simp add: splice1_def Let_def)

lemma updateLaser_keeps:
  "gameOver (snd (updateLaser rr s)) = gameOver s"
  "length (planets (snd (updateLaser rr s))) \<le> length (planets s)"
  "nextId (snd (updateLaser rr s)) = nextId s"
  by (simp_all add: updateLaser_def laserTimeout_def Let_def length_splice1
      split: option.split list.split)

lemma updateCamera_keeps:
  "gameOver (updateCamera s) = gameOver s"
  "planets (updateCamera s) = planets s"
  by (simp_all add: updateCamera_def Let_def split: option.split)

lemma updateAvatarMovement_keeps:
  "gameOver (updateAvatarMovement q s) = gameOver s"
  "planets (updateAvatarMovement q s) = planets s"
  by (simp_all add: updateAvatarMovement_def Let_def split: option.split)








lemma boot_length: "length (planets (boot rand)) = 60"
  unfolding boot_def using createPlanets_fields [of rand globals0] by auto


lemma created_le: "created r s \<le> 5"
proof -
  consider "length (planets s) < 100" | "length (planets s) = 100" | "100 < length (planets s)"
    by linarith
  then show ?thesis
  proof cases
    case 1
    from updatePlanets_below [OF 1, of r] show ?thesis by (auto simp: created_def)
  next
    case 2
    then show ?thesis by (simp add: created_def updatePlanets_full)
  next
    case 3
    then show ?thesis by (simp add: created_def updatePlanets_above)
  qed
qed

lemma removed_none:
  assumes "length (planets s) \<le> 100"
  shows "removed r s = 0"
proof (cases "length (planets s) < 100")
  case True
  from updatePlanets_below [OF True, of r] show ?thesis by (auto simp: removed_def created_def)
next
  case False
  then have "length (planets s) = 100" using assms by simp
  then show ?thesis by (simp add: removed_def created_def updatePlanets_full)
qed

lemma removal_not_batched:
  "removed r (globals0\<lparr>planets := replicate 106 g\<rparr>) = 6"
  by (simp add: removed_def created_def updatePlanets_above)



section \<open>End of the match and restart\<close>

lemmas float_eval = fadd_def fsub_def fmul_def fdiv_def rnd_def rne_def ilog2_def pow2_def
  Let_def bitlen_def compute_floorlog

lemma frame_step: "fdiv 1 60 = 4803839602528529 / 288230376151711744"
  by (simp add: float_eval)

lemma last_frame_clock:
  "fadd (fsub GAME_DURATION (fdiv 1 60)) (fdiv 1 60) = 300"
  by (simp add: GAME_DURATION_def frame_step) (simp add: float_eval)

lemma updatePlanets_gameOver: "gameOver (updatePlanets r s) = gameOver s"
proof -
  obtain ps n where "updatePlanets r s = s\<lparr>planets := ps, nextId := n\<rparr>"
    using updatePlanets_frame by blast
  then show ?thesis by simp
qed

lemma animate_after_end: "gameOver s \<Longrightarrow> animate e s = s"
  by (simp add: animate_def)

lemma updateGameTime_ends:
  "\<not> gameOver s \<Longrightarrow> gameTime s = fsub GAME_DURATION (fdiv 1 60) \<Longrightarrow> gameOver (updateGameTime s)"
  by (simp add: updateGameTime_def Let_def last_frame_clock endGame_def)
    (simp add: GAME_DURATION_def fsub_def rnd_def)

lemma animate_running:
  assumes "\<not> gameOver s"
  shows "animate e s = beforePlanets e s
         \<or> animate e s = updatePlanets (random e) (beforePlanets e s)"
proof -
  obtain c s4 where u:
    "updateLaser (ray e) (updateCamera (updateAvatarMovement (quat e) (updateGameTime s)))
     = (c, s4)"
    by (cases "updateLaser (ray e) (updateCamera (updateAvatarMovement (quat e) (updateGameTime s)))")
  show ?thesis using assms u
    by (cases c) (simp_all add: animate_def beforePlanets_def Let_def)
qed

lemma animate_gameOver_mono:
  assumes "gameOver (updateGameTime s)"
  shows "gameOver (animate e s)"
proof (cases "gameOver s")
  case True
  then show ?thesis by (simp add: animate_def)
next
  case False
  have "gameOver (beforePlanets e s)"
    using assms
    by (simp add: beforePlanets_def updateLaser_keeps updateCamera_keeps
        updateAvatarMovement_keeps)
  then show ?thesis
    using animate_running [OF False, of e] by (auto simp: updatePlanets_gameOver)
qed

text \<open>
  C6. A frame that starts at \<open>gameTime = GAME_DURATION - 1/60\<close> sets \<open>gameOver\<close>, and a
  frame on a state with \<open>gameOver\<close> changes nothing. The restart handler's assignments
  give score 0, game time 0, \<open>gameOver\<close> off, an idle laser and the avatar at the origin;
  the registry they seed holds 40 common, 14 exotic and 6 rare planets, not 40, 40, 20.
\<close>

theorem restart_reseeds_below_quota:
  "counts (restartReset r s) = (40, 14, 6)
   \<and> score (restartReset r s) = 0
   \<and> gameTime (restartReset r s) = 0
   \<and> \<not> gameOver (restartReset r s)
   \<and> Idle (restartReset r s)
   \<and> map_option position (avatar (restartReset r s))
       = map_option (\<lambda>a. \<lparr>vx = 0, vy = 0, vz = 0\<rparr>) (avatar s)
   \<and> gameOver (animate e (s\<lparr>gameOver := False,
                              gameTime := fsub GAME_DURATION (fdiv 1 60)\<rparr>))
   \<and> animate e (s\<lparr>gameOver := True\<rparr>) = s\<lparr>gameOver := True\<rparr>"
proof -
  let ?t = "(case avatar s of None \<Rightarrow> s\<lparr>gameOver := False, gameTime := 0, score := 0,
                 laserActive := False, cooldownTime := 0, laserTime := 0, laser := None\<rparr>
            | Some a \<Rightarrow> s\<lparr>gameOver := False, gameTime := 0, score := 0,
                 laserActive := False, cooldownTime := 0, laserTime := 0, laser := None,
                 avatar := Some (a\<lparr>position := \<lparr>vx = 0, vy = 0, vz = 0\<rparr>\<rparr>)\<rparr>)\<lparr>planets := []\<rparr>"
  have rr: "restartReset r s = createPlanets r ?t"
    by (simp add: restartReset_def Let_def split: option.split)
  obtain ps n where ps: "createPlanets r ?t = ?t\<lparr>planets := ps, nextId := n\<rparr>"
    "countOf Common ps = 40" "countOf Exotic ps = 14" "countOf Rare ps = 6"
    using createPlanets_fields [of r ?t] by blast
  have 1: "counts (restartReset r s) = (40, 14, 6)"
    by (simp add: rr ps counts_def)
  have 2: "score (restartReset r s) = 0" "gameTime (restartReset r s) = 0"
    "\<not> gameOver (restartReset r s)" "Idle (restartReset r s)"
    by (simp_all add: rr ps(1) Idle_def split: option.split)
  have 3: "map_option position (avatar (restartReset r s))
           = map_option (\<lambda>a. \<lparr>vx = 0, vy = 0, vz = 0\<rparr>) (avatar s)"
    by (simp add: rr ps(1) split: option.split)
  have 4: "gameOver (animate e (s\<lparr>gameOver := False,
                              gameTime := fsub GAME_DURATION (fdiv 1 60)\<rparr>))"
    by (rule animate_gameOver_mono) (simp add: updateGameTime_ends)
  have 5: "animate e (s\<lparr>gameOver := True\<rparr>) = s\<lparr>gameOver := True\<rparr>"
    by (simp add: animate_after_end)
  from 1 2 3 4 5 show ?thesis by blast
qed

section \<open>The avatar stays inside the cube\<close>

lemma halfSize: "fdiv CUBE_SIZE 2 = 800"
  by (simp add: CUBE_SIZE_def float_eval)

lemma clampCube_bounds: "- 800 \<le> clampCube a \<and> clampCube a \<le> 800"
  by (simp add: clampCube_def halfSize)

lemma updateAvatarMovement_inCube:
  assumes "avatar s = Some a" "avatarHead s = Some h"
  shows "\<exists>a' h'. avatar (updateAvatarMovement q s) = Some a'
           \<and> avatarHead (updateAvatarMovement q s) = Some h' \<and> inCube (position a')"
  using assms
  by (simp add: updateAvatarMovement_def Let_def inCube_def clampCube_bounds)

lemma moves_present:
  assumes "avatar s = Some a" "avatarHead s = Some h"
  shows "\<exists>a' h'. avatar (moves q s cs) = Some a' \<and> avatarHead (moves q s cs) = Some h'"
  using assms
proof (induction cs arbitrary: s a h)
  case Nil
  then show ?case by (simp add: moves_def)
next
  case (Cons c cs)
  have "avatar (s\<lparr>controls := c\<rparr>) = Some a" "avatarHead (s\<lparr>controls := c\<rparr>) = Some h"
    using Cons.prems by simp_all
  from updateAvatarMovement_inCube [OF this, of q]
  obtain a' h' where "avatar (updateAvatarMovement q (s\<lparr>controls := c\<rparr>)) = Some a'"
    "avatarHead (updateAvatarMovement q (s\<lparr>controls := c\<rparr>)) = Some h'"
    by blast
  from Cons.IH [OF this] show ?case by (simp add: moves_def)
qed

text \<open>
  C3. Whatever the sequence of control states, after each movement update every
  component of the avatar's position lies in \<open>[-800, 800]\<close> (avatar and head loaded,
  as they are in every frame).
\<close>

theorem avatar_stays_in_cube:
  assumes "avatar s = Some a" "avatarHead s = Some h"
  shows "\<exists>a'. avatar (moves q s (cs @ [c])) = Some a' \<and> inCube (position a')"
proof -
  obtain a1 h1 where p: "avatar (moves q s cs) = Some a1" "avatarHead (moves q s cs) = Some h1"
    using moves_present [OF assms] by blast
  have "avatar ((moves q s cs)\<lparr>controls := c\<rparr>) = Some a1"
       "avatarHead ((moves q s cs)\<lparr>controls := c\<rparr>) = Some h1"
    using p by simp_all
  from updateAvatarMovement_inCube [OF this, of q]
  show ?thesis by (auto simp: moves_def)
qed

theorem avatar_stays_in_cube_witness:
  "avatar globals0 = Some \<lparr>position = \<lparr>vx = 0, vy = 0, vz = 0\<rparr>, rotation_y = 0\<rparr>
   \<and> avatarHead globals0 = Some \<lparr>vx = 0, vy = 3 / 2, vz = 0\<rparr>
   \<and> (\<exists>a'. avatar (moves (\<lambda>r. \<lparr>vx = 0, vy = 0, vz = - 1\<rparr>) globals0
                ([] @ [(controls globals0)\<lparr>forward := True\<rparr>])) = Some a'
          \<and> inCube (position a'))"
proof -
  have a: "avatar globals0 = Some \<lparr>position = \<lparr>vx = 0, vy = 0, vz = 0\<rparr>, rotation_y = 0\<rparr>"
    and h: "avatarHead globals0 = Some \<lparr>vx = 0, vy = 3 / 2, vz = 0\<rparr>"
    by (simp_all add: globals0_def)
  from avatar_stays_in_cube [OF a h] a h show ?thesis by blast
qed

section \<open>What a firing frame destroys\<close>

lemma indexOf_member:
  "a \<in> set xs \<Longrightarrow> 0 \<le> indexOf xs a \<and> indexOf xs a < int (length xs)"
  by (induction xs) (auto simp: Let_def)

lemma splice1_indexOf: "a \<in> set xs \<Longrightarrow> splice1 xs (indexOf xs a) = remove1 a xs"
proof (induction xs)
  case Nil
  then show ?case by simp
next
  case (Cons b bs)
  show ?case
  proof (cases "b = a")
    case True
    then show ?thesis by (simp add: splice1_def)
  next
    case False
    then have mem: "a \<in> set bs" using Cons.prems by simp
    from indexOf_member [OF mem] have i: "0 \<le> indexOf bs a" "indexOf bs a < int (length bs)"
      by simp_all
    have "splice1 bs (indexOf bs a) = remove1 a bs" using Cons.IH [OF mem] .
    then show ?thesis
      using False i
      by (simp add: splice1_def Let_def nat_add_distrib min_def)
  qed
qed

lemma hit_parent: "h \<in> set (intersectObjects rr ps) \<Longrightarrow> parent h \<in> set ps"
  by (auto simp: intersectObjects_def)

lemma hit_nearest:
  assumes "intersectObjects rr ps = h # rest"
  shows "\<forall>h'\<in>set rest. distance h \<le> distance h'"
proof -
  have "sorted (map distance (intersectObjects rr ps))"
    by (simp add: intersectObjects_def)
  then show ?thesis using assms by simp
qed

lemma laserTimeout_keeps:
  "planets (snd (laserTimeout s)) = planets s"
  "score (snd (laserTimeout s)) = score s"
  by (simp_all add: laserTimeout_def split: option.split)

lemma updateLaser_miss:
  assumes "intersectObjects rr (planets s) = []"
  shows "planets (snd (updateLaser rr s)) = planets s \<and> score (snd (updateLaser rr s)) = score s"
  using assms
  by (simp add: updateLaser_def Let_def laserTimeout_keeps split: option.split)

lemma updateLaser_hit:
  assumes "avatar s \<noteq> None" "avatarHead s \<noteq> None" "laserActive s" "laser s \<noteq> None"
    and "intersectObjects rr (planets s) = h # rest"
  shows "planets (snd (updateLaser rr s)) = remove1 (parent h) (planets s)"
    and "score (snd (updateLaser rr s)) = score s + pointsFor (objectUserData h)"
    and "fst (updateLaser rr s) = TypeError \<longleftrightarrow> child h \<noteq> 0"
proof -
  have mem: "parent h \<in> set (planets s)"
    using hit_parent [of h rr "planets s"] assms(5) by simp
  show "planets (snd (updateLaser rr s)) = remove1 (parent h) (planets s)"
    using assms splice1_indexOf [OF mem]
    by (auto simp: updateLaser_def Let_def laserTimeout_keeps)
  show "score (snd (updateLaser rr s)) = score s + pointsFor (objectUserData h)"
    using assms by (auto simp: updateLaser_def Let_def laserTimeout_keeps)
  show "fst (updateLaser rr s) = TypeError \<longleftrightarrow> child h \<noteq> 0"
    using assms
    by (auto simp: updateLaser_def Let_def laserTimeout_def objectUserData_def
        split: option.split)
qed

text \<open>
  In a frame in which the laser fires, either the ray meets nothing and neither the
  registry nor the score changes, or exactly one planet group is taken out of the registry
  and scored: the parent of the first hit object, sphere or decoration.
\<close>

lemma firing_frame_takes_first_hit:
  assumes "avatar s \<noteq> None" "avatarHead s \<noteq> None" "laserActive s" "laser s \<noteq> None"
  shows "case intersectObjects rr (planets s) of
           [] \<Rightarrow> planets (snd (updateLaser rr s)) = planets s
                 \<and> score (snd (updateLaser rr s)) = score s
         | h # rest \<Rightarrow>
               (\<forall>h'\<in>set rest. distance h \<le> distance h')
             \<and> parent h \<in> set (planets s)
             \<and> planets (snd (updateLaser rr s)) = remove1 (parent h) (planets s)
             \<and> score (snd (updateLaser rr s)) = score s + pointsFor (objectUserData h)"
proof (cases "intersectObjects rr (planets s)")
  case Nil
  then show ?thesis using updateLaser_miss [OF Nil] by simp
next
  case (Cons h rest)
  have "parent h \<in> set (planets s)"
    using hit_parent [of h rr "planets s"] Cons by simp
  then show ?thesis
    using Cons hit_nearest [OF Cons] updateLaser_hit(1,2) [OF assms Cons] by simp
qed

lemma two_hits:
  "intersectObjects bothSpheres [farCommon, nearExotic]
   = [\<lparr>distance = 2500, parent = nearExotic, child = 0\<rparr>,
      \<lparr>distance = 2600, parent = farCommon, child = 0\<rparr>]"
  by (simp add: intersectObjects_def bothSpheres_def farCommon_def nearExotic_def
      upt_rec [of 0])

lemma two_spheres_nearer_destroyed:
  "avatar (firingAt [farCommon, nearExotic]) \<noteq> None
   \<and> avatarHead (firingAt [farCommon, nearExotic]) \<noteq> None
   \<and> laserActive (firingAt [farCommon, nearExotic])
   \<and> laser (firingAt [farCommon, nearExotic]) \<noteq> None
   \<and> planets (snd (updateLaser bothSpheres (firingAt [farCommon, nearExotic]))) = [farCommon]
   \<and> score (snd (updateLaser bothSpheres (firingAt [farCommon, nearExotic]))) = 300"
proof -
  have a: "avatar (firingAt [farCommon, nearExotic]) \<noteq> None"
    and b: "avatarHead (firingAt [farCommon, nearExotic]) \<noteq> None"
    and c: "laserActive (firingAt [farCommon, nearExotic])"
    and d: "laser (firingAt [farCommon, nearExotic]) \<noteq> None"
    by (simp_all add: firingAt_def globals0_def)
  have p: "planets (firingAt [farCommon, nearExotic]) = [farCommon, nearExotic]"
    and s: "score (firingAt [farCommon, nearExotic]) = 0"
    by (simp_all add: firingAt_def globals0_def)
  have ne: "nearExotic \<noteq> farCommon" "farCommon \<noteq> nearExotic"
    by (simp_all add: farCommon_def nearExotic_def)
  have pts: "points (planet nearExotic) = 300" by (simp add: nearExotic_def)
  from firing_frame_takes_first_hit [OF a b c d, of bothSpheres]
  have "planets (snd (updateLaser bothSpheres (firingAt [farCommon, nearExotic]))) = [farCommon]
        \<and> score (snd (updateLaser bothSpheres (firingAt [farCommon, nearExotic]))) = 300"
    by (simp add: p s two_hits pointsFor_def objectUserData_def ne pts)
  then show ?thesis using a b c d by blast
qed

section \<open>Points awarded for a hit\<close>

lemma core_hit_scores_points:
  assumes "avatar s \<noteq> None" "avatarHead s \<noteq> None" "laserActive s" "laser s \<noteq> None"
    and "intersectObjects rr (planets s) = h # rest" and "child h = 0"
    and "distinct (planets s)"
  shows "score (snd (updateLaser rr s)) = score s + points (planet (parent h))
         \<and> parent h \<notin> set (planets (snd (updateLaser rr s)))
         \<and> fst (updateLaser rr s) = Normal"
proof -
  have "fst (updateLaser rr s) \<noteq> TypeError"
    using updateLaser_hit(3) [OF assms(1-5)] assms(6) by simp
  then have "fst (updateLaser rr s) = Normal" by (cases "fst (updateLaser rr s)") simp_all
  then show ?thesis
    using updateLaser_hit(1,2) [OF assms(1-5)] assms(6,7)
    by (simp add: pointsFor_def objectUserData_def)
qed

lemma ring_hits:
  "intersectObjects ringThenSphere [nearExotic]
   = [\<lparr>distance = 2500, parent = nearExotic, child = 1\<rparr>,
      \<lparr>distance = 2600, parent = nearExotic, child = 0\<rparr>]"
  by (simp add: intersectObjects_def ringThenSphere_def nearExotic_def upt_rec [of 0]
      upt_rec [of 1])

text \<open>
  C4. A firing ray that meets the ring of an exotic planet worth 300 points at distance
  2500 and the planet's sphere at 2600, with no other planet in the registry: the frame
  removes the planet and adds 10 to the score, not 300, and \<open>updateLaser\<close> ends with a
  TypeError.
\<close>

theorem ring_hit_scores_ten:
  "points (planet nearExotic) = 300
   \<and> score (firingAt [nearExotic]) = 0
   \<and> score (snd (updateLaser ringThenSphere (firingAt [nearExotic]))) = 10
   \<and> planets (snd (updateLaser ringThenSphere (firingAt [nearExotic]))) = []
   \<and> fst (updateLaser ringThenSphere (firingAt [nearExotic])) = TypeError"
proof -
  have a: "avatar (firingAt [nearExotic]) \<noteq> None"
    and b: "avatarHead (firingAt [nearExotic]) \<noteq> None"
    and c: "laserActive (firingAt [nearExotic])"
    and d: "laser (firingAt [nearExotic]) \<noteq> None"
    and p: "planets (firingAt [nearExotic]) = [nearExotic]"
    and s: "score (firingAt [nearExotic]) = 0"
    by (simp_all add: firingAt_def globals0_def)
  have h: "intersectObjects ringThenSphere (planets (firingAt [nearExotic]))
           = \<lparr>distance = 2500, parent = nearExotic, child = 1\<rparr>
             # [\<lparr>distance = 2600, parent = nearExotic, child = 0\<rparr>]"
    by (simp add: p ring_hits)
  have pts: "points (planet nearExotic) = 300" by (simp add: nearExotic_def)
  from updateLaser_hit [OF a b c d h] show ?thesis
    by (simp add: p s pointsFor_def objectUserData_def pts)
qed

section \<open>Laser lifecycle\<close>

lemma iterate_numeral: "(f ^^ numeral k) x = (f ^^ pred_numeral k) (f x)"
  by (simp add: numeral_eq_Suc funpow_swap1)

lemma cooldown_value: "LASER_COOLDOWN_DURATION = 1 / 2"
  by (simp add: LASER_COOLDOWN_DURATION_def float_eval)

lemma burn_300:
  "(laserClock ^^ 300) (True, 0, c) = (True, 2814749767106553 / 562949953421312, c)"
  by (simp add: iterate_numeral frame_step LASER_MAX_DURATION_def float_eval)

lemma burn_301:
  "(laserClock ^^ 301) (True, 0, c) = (False, 5648264532660483 / 1125899906842624, 1 / 2)"
proof -
  have "(laserClock ^^ 301) (True, 0, c) = laserClock ((laserClock ^^ 300) (True, 0, c))"
    by (simp add: eval_nat_numeral)
  also have "\<dots> = (False, 5648264532660483 / 1125899906842624, 1 / 2)"
    by (simp only: burn_300) (simp add: frame_step LASER_MAX_DURATION_def cooldown_value float_eval)
  finally show ?thesis .
qed

lemma cool_30:
  "(laserClock ^^ 30) (False, t, 1 / 2) = (False, t, 15 / 144115188075855872)"
  by (simp add: iterate_numeral frame_step float_eval)

lemma cool_31:
  "(laserClock ^^ 31) (False, t, 1 / 2) = (False, t, - (4803839602528499 / 288230376151711744))"
proof -
  have "(laserClock ^^ 31) (False, t, 1 / 2) = laserClock ((laserClock ^^ 30) (False, t, 1 / 2))"
    by (simp add: eval_nat_numeral)
  also have "\<dots> = (False, t, - (4803839602528499 / 288230376151711744))"
    by (simp only: cool_30) (simp add: frame_step float_eval)
  finally show ?thesis .
qed

lemma hit_child:
  "h \<in> set (intersectObjects rr ps) \<Longrightarrow> distance h \<in> set (rr (parent h) (child h))"
  by (auto simp: intersectObjects_def)

lemma updateLaser_clock:
  assumes "avatar s \<noteq> None" "avatarHead s \<noteq> None" "laserActive s \<longrightarrow> laser s \<noteq> None"
    and "\<forall>g i. 0 < i \<longrightarrow> rr g i = []"
  shows "laserVars (snd (updateLaser rr s)) = laserClock (laserVars s)
         \<and> avatar (snd (updateLaser rr s)) = avatar s
         \<and> avatarHead (snd (updateLaser rr s)) = avatarHead s
         \<and> (laserActive (snd (updateLaser rr s)) \<longrightarrow> laser (snd (updateLaser rr s)) \<noteq> None)"
proof -
  obtain a hd where av: "avatar s = Some a" "avatarHead s = Some hd"
    using assms(1,2) by auto
  show ?thesis
  proof (cases "laserActive s")
    case False
    then show ?thesis using av
      by (simp add: updateLaser_def laserVars_def)
  next
    case True
    then obtain b where b: "laser s = Some b" using assms(3) by auto
    show ?thesis
    proof (cases "intersectObjects rr (planets s)")
      case Nil
      then show ?thesis using av True b
        by (simp add: updateLaser_def laserVars_def laserTimeout_def Let_def)
    next
      case (Cons h rest)
      have "distance h \<in> set (rr (parent h) (child h))"
        using hit_child [of h rr "planets s"] Cons by simp
      then have "child h = 0" using assms(4) by (cases "child h") auto
      then show ?thesis using av True b Cons
        by (simp add: updateLaser_def laserVars_def laserTimeout_def Let_def objectUserData_def)
    qed
  qed
qed

lemma laserFrames_clock:
  assumes "avatar s \<noteq> None" "avatarHead s \<noteq> None" "laserActive s \<longrightarrow> laser s \<noteq> None"
    and "\<forall>rr\<in>set rs. \<forall>g i. 0 < i \<longrightarrow> rr g i = []"
  shows "laserVars (laserFrames s rs) = (laserClock ^^ length rs) (laserVars s)
         \<and> avatar (laserFrames s rs) \<noteq> None \<and> avatarHead (laserFrames s rs) \<noteq> None"
  using assms
proof (induction rs arbitrary: s)
  case Nil
  then show ?case by (simp add: laserFrames_def)
next
  case (Cons r rs)
  have r: "\<forall>g i. 0 < i \<longrightarrow> r g i = []" using Cons.prems(4) by simp
  let ?s' = "snd (updateLaser r s)"
  from updateLaser_clock [OF Cons.prems(1-3) r]
  have st: "laserVars ?s' = laserClock (laserVars s)" "avatar ?s' \<noteq> None"
    "avatarHead ?s' \<noteq> None" "laserActive ?s' \<longrightarrow> laser ?s' \<noteq> None"
    using Cons.prems(1,2) by simp_all
  have rest: "\<forall>rr\<in>set rs. \<forall>g i. 0 < i \<longrightarrow> rr g i = []" using Cons.prems(4) by simp
  have "laserVars (laserFrames ?s' rs) = (laserClock ^^ length rs) (laserVars ?s')
        \<and> avatar (laserFrames ?s' rs) \<noteq> None \<and> avatarHead (laserFrames ?s' rs) \<noteq> None"
    by (rule Cons.IH [OF st(2-4) rest])
  then show ?case
    by (simp add: laserFrames_def st(1) funpow_swap1)
qed

lemma trigger_rejected:
  "Firing t \<or> Cooldown t \<Longrightarrow> handleMouseDown cx cy t = (Normal, t)"
  by (auto simp: Firing_def Cooldown_def handleMouseDown_def)

lemma trigger_accepted:
  assumes "avatarHead s \<noteq> None" "Idle s"
  shows "laserVars (snd (handleMouseDown cx cy s)) = (True, 0, cooldownTime s)
         \<and> laser (snd (handleMouseDown cx cy s)) \<noteq> None
         \<and> avatar (snd (handleMouseDown cx cy s)) = avatar s
         \<and> avatarHead (snd (handleMouseDown cx cy s)) = avatarHead s"
  using assms
  by (auto simp: Idle_def handleMouseDown_def laserVars_def Let_def)

lemma still_firing_after_300:
  assumes "avatar s \<noteq> None" "avatarHead s \<noteq> None" "Idle s"
    and "\<forall>rr\<in>set rs. \<forall>g i. 0 < i \<longrightarrow> rr g i = []" "length rs = 300"
  shows "laserVars (laserFrames (snd (handleMouseDown cx cy s)) rs)
         = (True, 2814749767106553 / 562949953421312, cooldownTime s)"
proof -
  let ?s1 = "snd (handleMouseDown cx cy s)"
  from trigger_accepted [OF assms(2,3), of cx cy]
  have s1: "laserVars ?s1 = (True, 0, cooldownTime s)" "laser ?s1 \<noteq> None"
    "avatar ?s1 \<noteq> None" "avatarHead ?s1 \<noteq> None"
    using assms(1,2) by simp_all
  have "laserActive ?s1 \<longrightarrow> laser ?s1 \<noteq> None" using s1(2) by simp
  from laserFrames_clock [OF s1(3,4) this assms(4)]
  show ?thesis by (simp add: s1(1) assms(5) burn_300)
qed

text \<open>
  C2. A pointer-down while idle starts a burn at elapsed time 0. With no release, and
  in frames whose ray meets no decoration, the laser is still firing after 300 frames
  (the accumulated doubles give 4.999999999999988, below 5) and switches to cooldown with
  0.5 remaining in the 301st frame; it is still cooling down after 30 further frames
  (about 1.04e-16 remains) and idle after the 31st. A pointer-down while firing or
  cooling down leaves the state unchanged.
\<close>

theorem laser_lifecycle:
  assumes "avatar s \<noteq> None" "avatarHead s \<noteq> None" "Idle s"
    and "\<forall>rr\<in>set rs. \<forall>g i. 0 < i \<longrightarrow> rr g i = []" "length rs = 301"
    and "\<forall>rr\<in>set rs'. \<forall>g i. 0 < i \<longrightarrow> rr g i = []" "length rs' = 31"
  shows "let s1 = snd (handleMouseDown cx cy s);
             s2 = laserFrames s1 rs;
             s3 = laserFrames s2 rs'
         in Firing s1 \<and> laserTime s1 = 0
          \<and> Firing (laserFrames s1 (take 300 rs))
          \<and> Cooldown s2 \<and> cooldownTime s2 = 1 / 2
          \<and> Cooldown (laserFrames s2 (take 30 rs'))
          \<and> Idle s3
          \<and> (\<forall>t. Firing t \<or> Cooldown t \<longrightarrow> handleMouseDown cx cy t = (Normal, t))"
proof -
  let ?s1 = "snd (handleMouseDown cx cy s)"
  let ?s2 = "laserFrames ?s1 rs"
  let ?s3 = "laserFrames ?s2 rs'"
  from trigger_accepted [OF assms(2,3), of cx cy]
  have s1: "laserVars ?s1 = (True, 0, cooldownTime s)" "laser ?s1 \<noteq> None"
    "avatar ?s1 \<noteq> None" "avatarHead ?s1 \<noteq> None"
    using assms(1,2) by simp_all
  have l1: "laserActive ?s1 \<longrightarrow> laser ?s1 \<noteq> None" using s1(2) by simp
  have a: "Firing ?s1 \<and> laserTime ?s1 = 0"
    using s1(1) by (simp add: laserVars_def Firing_def)
  have t300: "\<forall>rr\<in>set (take 300 rs). \<forall>g i. 0 < i \<longrightarrow> rr g i = []"
    using assms(4) by (meson in_set_takeD)
  have "laserVars (laserFrames ?s1 (take 300 rs))
        = (True, 2814749767106553 / 562949953421312, cooldownTime s)"
    using laserFrames_clock [OF s1(3,4) l1 t300] assms(5) by (simp add: s1(1) burn_300)
  then have b: "Firing (laserFrames ?s1 (take 300 rs))"
    by (simp add: laserVars_def Firing_def)
  from laserFrames_clock [OF s1(3,4) l1 assms(4)]
  have s2: "laserVars ?s2 = (False, 5648264532660483 / 1125899906842624, 1 / 2)"
    "avatar ?s2 \<noteq> None" "avatarHead ?s2 \<noteq> None"
    by (simp_all add: s1(1) assms(5) burn_301)
  have c: "Cooldown ?s2 \<and> cooldownTime ?s2 = 1 / 2"
    using s2(1) by (simp add: laserVars_def Cooldown_def)
  have l2: "laserActive ?s2 \<longrightarrow> laser ?s2 \<noteq> None"
    using s2(1) by (simp add: laserVars_def)
  have t30: "\<forall>rr\<in>set (take 30 rs'). \<forall>g i. 0 < i \<longrightarrow> rr g i = []"
    using assms(6) by (meson in_set_takeD)
  have "laserVars (laserFrames ?s2 (take 30 rs'))
        = (False, 5648264532660483 / 1125899906842624, 15 / 144115188075855872)"
    using laserFrames_clock [OF s2(2,3) l2 t30] assms(7) by (simp add: s2(1) cool_30)
  then have d: "Cooldown (laserFrames ?s2 (take 30 rs'))"
    by (simp add: laserVars_def Cooldown_def)
  have "laserVars ?s3
        = (False, 5648264532660483 / 1125899906842624,
           - (4803839602528499 / 288230376151711744))"
    using laserFrames_clock [OF s2(2,3) l2 assms(6)] by (simp add: s2(1) assms(7) cool_31)
  then have e: "Idle ?s3" by (simp add: laserVars_def Idle_def)
  have f: "\<forall>t. Firing t \<or> Cooldown t \<longrightarrow> handleMouseDown cx cy t = (Normal, t)"
    using trigger_rejected by blast
  from a b c d e f show ?thesis by (simp add: Let_def)
qed

theorem laser_lifecycle_witness:
  "Idle globals0 \<and> length (replicate 301 noHit) = 301 \<and> length (replicate 31 noHit) = 31
   \<and> Firing (laserFrames (snd (handleMouseDown 0 0 globals0)) (take 300 (replicate 301 noHit)))
   \<and> Cooldown (laserFrames (snd (handleMouseDown 0 0 globals0)) (replicate 301 noHit))
   \<and> Idle (laserFrames (laserFrames (snd (handleMouseDown 0 0 globals0)) (replicate 301 noHit))
             (replicate 31 noHit))"
proof -
  have a: "avatar globals0 \<noteq> None" and h: "avatarHead globals0 \<noteq> None" and i: "Idle globals0"
    by (simp_all add: globals0_def Idle_def)
  have r1: "\<forall>rr\<in>set (replicate 301 noHit). \<forall>g i. 0 < i \<longrightarrow> rr g i = []"
    and r2: "\<forall>rr\<in>set (replicate 31 noHit). \<forall>g i. 0 < i \<longrightarrow> rr g i = []"
    by (simp_all add: noHit_def)
  have n1: "length (replicate 301 noHit) = 301" and n2: "length (replicate 31 noHit) = 31"
    by simp_all
  from laser_lifecycle [OF a h i r1 n1 r2 n2, of 0 0] i show ?thesis
    by (simp add: Let_def)
qed

text \<open>
  After a pointer-down at start-up and 300 frames of 1/60 s the laser is still firing,
  not cooling down.
\<close>

theorem still_firing_after_five_seconds:
  "Firing (laserFrames (snd (handleMouseDown 0 0 globals0)) (replicate 300 noHit))
   \<and> \<not> Cooldown (laserFrames (snd (handleMouseDown 0 0 globals0)) (replicate 300 noHit))
   \<and> laserTime (laserFrames (snd (handleMouseDown 0 0 globals0)) (replicate 300 noHit)) < 5"
proof -
  have a: "avatar globals0 \<noteq> None" and h: "avatarHead globals0 \<noteq> None" and i: "Idle globals0"
    by (simp_all add: globals0_def Idle_def)
  have r: "\<forall>rr\<in>set (replicate 300 noHit). \<forall>g i. 0 < i \<longrightarrow> rr g i = []"
    by (simp add: noHit_def)
  from still_firing_after_300 [OF a h i r, of 0 0]
  show ?thesis by (simp add: laserVars_def Firing_def Cooldown_def)
qed

section \<open>Rounding: sign, error and grid\<close>

lemma pow2_pos: "0 < pow2 e"
  by (simp add: pow2_def)

lemma pow2_powi: "pow2 e = 2 powi e"
  by (simp add: pow2_def power_int_def inverse_eq_divide power_one_over)

lemma pow2_add: "pow2 (a + b) = pow2 a * pow2 b"
  by (simp add: pow2_powi power_int_add)

lemma rne_bounds: "\<lfloor>q\<rfloor> \<le> rne q \<and> rne q \<le> \<lceil>q\<rceil>"
proof -
  have "q - of_int \<lfloor>q\<rfloor> < 1 / 2 \<or> q \<noteq> of_int \<lfloor>q\<rfloor>" by auto
  then show ?thesis
    by (auto simp: rne_def Let_def ceiling_altdef)
qed

lemma rne_error: "\<bar>of_int (rne q) - q\<bar> \<le> 1 / 2"
proof -
  have "of_int \<lfloor>q\<rfloor> \<le> q" "q < of_int \<lfloor>q\<rfloor> + 1" by linarith+
  then show ?thesis
    by (auto simp: rne_def Let_def)
qed

lemma ilog2_le:
  assumes "0 < y"
  shows "pow2 (ilog2 y) \<le> y"
proof (cases "1 \<le> y")
  case True
  then have f: "0 < \<lfloor>y\<rfloor>" by linarith
  from bitlen_bounds [OF f] have b: "2 ^ nat (bitlen \<lfloor>y\<rfloor> - 1) \<le> \<lfloor>y\<rfloor>" by simp
  have nn: "0 \<le> bitlen \<lfloor>y\<rfloor> - 1"
    using f by (simp add: bitlen_alt_def)
  have "(2::real) ^ nat (bitlen \<lfloor>y\<rfloor> - 1) = of_int (2 ^ nat (bitlen \<lfloor>y\<rfloor> - 1))" by simp
  also have "\<dots> \<le> of_int \<lfloor>y\<rfloor>" using b by (simp only: of_int_le_iff)
  also have "\<dots> \<le> y" by simp
  finally show ?thesis using True nn by (simp add: ilog2_def pow2_def)
next
  case False
  then have y1: "y < 1" by simp
  have "1 < 1 / y" using assms y1 by simp
  then have c: "2 \<le> \<lceil>1 / y\<rceil>" by linarith
  then have n: "0 < \<lceil>1 / y\<rceil> - 1" by simp
  let ?k = "bitlen (\<lceil>1 / y\<rceil> - 1)"
  from bitlen_bounds [OF n] have "\<lceil>1 / y\<rceil> - 1 < 2 ^ nat ?k" by simp
  then have "\<lceil>1 / y\<rceil> \<le> 2 ^ nat ?k" by simp
  then have "real_of_int \<lceil>1 / y\<rceil> \<le> of_int (2 ^ nat ?k)" by (simp only: of_int_le_iff)
  then have "1 / y \<le> 2 ^ nat ?k" by (simp add: ceiling_le_iff)
  then have le: "1 / 2 ^ nat ?k \<le> y"
    using assms by (simp add: field_simps)
  have kpos: "0 < ?k" using n by (simp add: bitlen_alt_def)
  show ?thesis using y1 le kpos by (simp add: ilog2_def pow2_def)
qed

lemma pow2_one: "pow2 1 = 2"
  by (simp add: pow2_def)

lemma pow2_m52: "pow2 (- 52) = 1 / 2 ^ 52"
  by (simp add: pow2_def)

lemma pow2_Ints: "0 \<le> e \<Longrightarrow> pow2 e \<in> \<int>"
  by (simp add: pow2_def)

lemma rnd_nonzero:
  "y \<noteq> 0 \<Longrightarrow>
   rnd y = of_int (rne (y / pow2 (max (ilog2 \<bar>y\<bar>) (- 1022) - 52)))
           * pow2 (max (ilog2 \<bar>y\<bar>) (- 1022) - 52)"
  by (simp add: rnd_def Let_def)

lemma rnd_sign: "(0 \<le> y \<longrightarrow> 0 \<le> rnd y) \<and> (y \<le> 0 \<longrightarrow> rnd y \<le> 0)"
proof (cases "y = 0")
  case True
  then show ?thesis by (simp add: rnd_def)
next
  case False
  let ?u = "pow2 (max (ilog2 \<bar>y\<bar>) (- 1022) - 52)"
  have u: "0 < ?u" by (rule pow2_pos)
  have r: "rnd y = of_int (rne (y / ?u)) * ?u" by (rule rnd_nonzero [OF False])
  have b: "\<lfloor>y / ?u\<rfloor> \<le> rne (y / ?u)" "rne (y / ?u) \<le> \<lceil>y / ?u\<rceil>"
    using rne_bounds [of "y / ?u"] by simp_all
  show ?thesis
  proof (intro conjI impI)
    assume "0 \<le> y"
    then have "0 \<le> y / ?u" using u by simp
    then have "0 \<le> \<lfloor>y / ?u\<rfloor>" by simp
    then have "0 \<le> rne (y / ?u)" using b(1) by linarith
    then show "0 \<le> rnd y" using u by (simp add: r)
  next
    assume "y \<le> 0"
    then have "y / ?u \<le> 0" using u by (simp add: divide_nonpos_pos)
    then have "\<lceil>y / ?u\<rceil> \<le> 0" by (simp add: ceiling_le_iff)
    then have "rne (y / ?u) \<le> 0" using b(2) by linarith
    then show "rnd y \<le> 0" using u by (simp add: r mult_nonpos_nonneg)
  qed
qed

lemma rnd_half_ulp:
  assumes "y \<noteq> 0"
  shows "\<bar>rnd y - y\<bar> \<le> pow2 (max (ilog2 \<bar>y\<bar>) (- 1022) - 52) / 2"
proof -
  let ?u = "pow2 (max (ilog2 \<bar>y\<bar>) (- 1022) - 52)"
  have u: "0 < ?u" by (rule pow2_pos)
  have r: "rnd y = of_int (rne (y / ?u)) * ?u" by (rule rnd_nonzero [OF assms])
  have "rnd y - y = (of_int (rne (y / ?u)) - y / ?u) * ?u"
    using u by (simp add: r field_simps)
  then have "\<bar>rnd y - y\<bar> = \<bar>of_int (rne (y / ?u)) - y / ?u\<bar> * ?u"
    using u by (simp add: abs_mult)
  also have "\<dots> \<le> 1 / 2 * ?u"
    using rne_error [of "y / ?u"] u by (simp add: mult_right_mono)
  finally show ?thesis by simp
qed

lemma ulp_normal:
  assumes "y \<noteq> 0" "- 1022 \<le> ilog2 \<bar>y\<bar>"
  shows "pow2 (max (ilog2 \<bar>y\<bar>) (- 1022) - 52) / 2 \<le> \<bar>y\<bar> / 2 ^ 53"
proof -
  have "max (ilog2 \<bar>y\<bar>) (- 1022) - 52 = ilog2 \<bar>y\<bar> + (- 52)" using assms(2) by simp
  then have "pow2 (max (ilog2 \<bar>y\<bar>) (- 1022) - 52) = pow2 (ilog2 \<bar>y\<bar>) * pow2 (- 52)"
    by (simp only: pow2_add)
  also have "\<dots> \<le> \<bar>y\<bar> * pow2 (- 52)"
    using ilog2_le [of "\<bar>y\<bar>"] assms(1) pow2_pos [of "- 52"] by (simp add: mult_right_mono)
  finally show ?thesis by (simp add: pow2_m52)
qed

lemma ulp_subnormal:
  assumes "\<not> - 1022 \<le> ilog2 \<bar>y\<bar>"
  shows "pow2 (max (ilog2 \<bar>y\<bar>) (- 1022) - 52) = pow2 (- 1074)"
    and "pow2 (max (ilog2 \<bar>y\<bar>) (- 1022) - 52) / 2 = pow2 (- 1075)"
proof -
  have j: "max (ilog2 \<bar>y\<bar>) (- 1022) - 52 = - 1074" using assms by simp
  show "pow2 (max (ilog2 \<bar>y\<bar>) (- 1022) - 52) = pow2 (- 1074)" by (simp only: j)
  have "(- 1074 :: int) = - 1075 + 1" by simp
  then have "pow2 (- 1074) = pow2 (- 1075) * pow2 1" by (simp only: pow2_add)
  then show "pow2 (max (ilog2 \<bar>y\<bar>) (- 1022) - 52) / 2 = pow2 (- 1075)"
    by (simp only: j pow2_one)
qed

lemma rnd_error: "\<bar>rnd y - y\<bar> \<le> \<bar>y\<bar> / 2 ^ 53 + pow2 (- 1075)"
proof (cases "y = 0")
  case True
  then show ?thesis using pow2_pos [of "- 1075"] by (simp add: rnd_def)
next
  case False
  note half = rnd_half_ulp [OF False]
  show ?thesis
  proof (cases "- 1022 \<le> ilog2 \<bar>y\<bar>")
    case True
    from ulp_normal [OF False True] half pow2_pos [of "- 1075"] show ?thesis by linarith
  next
    case sub: False
    have "0 \<le> \<bar>y\<bar> / 2 ^ 53" by simp
    with ulp_subnormal(2) [OF sub] half show ?thesis by linarith
  qed
qed

lemma rnd_onGrid: "onDoubleGrid (rnd y)"
proof (cases "y = 0")
  case True
  then show ?thesis by (simp add: rnd_def onDoubleGrid_def)
next
  case False
  let ?j = "max (ilog2 \<bar>y\<bar>) (- 1022) - 52"
  have j: "0 \<le> ?j + 1074" by simp
  have e: "?j + 1074 + (- 1074) = ?j" by simp
  have "pow2 ?j = pow2 (?j + 1074) * pow2 (- 1074)"
    using pow2_add [of "?j + 1074" "- 1074"] by (simp only: e)
  then have "rnd y / pow2 (- 1074) = of_int (rne (y / pow2 ?j)) * pow2 (?j + 1074)"
    using pow2_pos [of "- 1074"] by (simp add: rnd_nonzero [OF False])
  also have "\<dots> \<in> \<int>" using pow2_Ints [OF j] by simp
  finally show ?thesis by (simp add: onDoubleGrid_def)
qed

lemma rnd_shrink:
  assumes "onDoubleGrid a" "0 \<le> c" "c * (1 + 1 / 2 ^ 53) \<le> 1"
  shows "\<bar>rnd (a * c)\<bar> \<le> \<bar>a\<bar>"
proof (cases "a * c = 0")
  case True
  then show ?thesis by (simp add: rnd_def)
next
  case False
  let ?y = "a * c"
  let ?u = "pow2 (max (ilog2 \<bar>?y\<bar>) (- 1022) - 52)"
  show ?thesis
  proof (cases "- 1022 \<le> ilog2 \<bar>?y\<bar>")
    case True
    from ulp_normal [OF False True] rnd_half_ulp [OF False]
    have "\<bar>rnd ?y - ?y\<bar> \<le> \<bar>?y\<bar> / 2 ^ 53" by linarith
    then have "\<bar>rnd ?y\<bar> \<le> \<bar>?y\<bar> + \<bar>?y\<bar> / 2 ^ 53" by linarith
    also have "\<dots> = \<bar>a\<bar> * (c * (1 + 1 / 2 ^ 53))"
      using assms(2) by (simp add: abs_mult algebra_simps)
    also have "\<dots> \<le> \<bar>a\<bar> * 1"
      by (rule mult_left_mono [OF assms(3)]) simp
    finally show ?thesis by simp
  next
    case sub: False
    have u: "?u = pow2 (- 1074)" by (rule ulp_subnormal(1) [OF sub])
    have up: "0 < pow2 (- 1074)" by (rule pow2_pos)
    obtain k where k: "a / pow2 (- 1074) = of_int k"
      using assms(1) by (auto simp: onDoubleGrid_def Ints_def)
    have r: "rnd ?y = of_int (rne (?y / pow2 (- 1074))) * pow2 (- 1074)"
      using rnd_nonzero [OF False] by (simp only: u)
    have "?y / pow2 (- 1074) = a / pow2 (- 1074) * c" by simp
    then have q: "?y / pow2 (- 1074) = of_int k * c" by (simp only: k)
    have c1: "c \<le> 1"
    proof -
      have "c * 1 \<le> c * (1 + 1 / 2 ^ 53)" by (rule mult_left_mono [OF _ assms(2)]) simp
      then show ?thesis using assms(3) by simp
    qed
    have "\<bar>of_int k * c\<bar> \<le> \<bar>real_of_int k\<bar>"
      using assms(2) c1 by (simp add: abs_mult mult_left_le)
    then have qk: "- real_of_int \<bar>k\<bar> \<le> of_int k * c" "of_int k * c \<le> real_of_int \<bar>k\<bar>"
      by (simp_all add: abs_le_iff)
    have "- \<bar>k\<bar> \<le> \<lfloor>real_of_int k * c\<rfloor>" using qk(1) by (simp add: le_floor_iff)
    moreover have "\<lceil>real_of_int k * c\<rceil> \<le> \<bar>k\<bar>" using qk(2) by (simp add: ceiling_le_iff)
    ultimately have "\<bar>rne (real_of_int k * c)\<bar> \<le> \<bar>k\<bar>"
      using rne_bounds [of "real_of_int k * c"] by linarith
    then have "real_of_int \<bar>rne (real_of_int k * c)\<bar> \<le> real_of_int \<bar>k\<bar>"
      by (simp only: of_int_le_iff)
    then have "\<bar>real_of_int (rne (real_of_int k * c))\<bar> \<le> \<bar>real_of_int k\<bar>" by simp
    then have "\<bar>rnd ?y\<bar> \<le> \<bar>real_of_int k\<bar> * pow2 (- 1074)"
      using up by (simp add: r q abs_mult mult_right_mono)
    also have "\<dots> = \<bar>a\<bar>"
    proof -
      have "a = of_int k * pow2 (- 1074)" using k up by (simp add: field_simps)
      then show ?thesis using up by (simp add: abs_mult)
    qed
    finally show ?thesis .
  qed
qed

lemma rnd_contract:
  assumes "0 \<le> c" "c * (1 + 1 / 2 ^ 53) \<le> q"
  shows "\<bar>rnd (a * c)\<bar> \<le> q * \<bar>a\<bar> + pow2 (- 1075)"
proof -
  have "\<bar>rnd (a * c)\<bar> \<le> \<bar>a * c\<bar> + \<bar>a * c\<bar> / 2 ^ 53 + pow2 (- 1075)"
    using rnd_error [of "a * c"] by linarith
  also have "\<bar>a * c\<bar> + \<bar>a * c\<bar> / 2 ^ 53 = (c * (1 + 1 / 2 ^ 53)) * \<bar>a\<bar>"
    using assms(1) by (simp add: abs_mult algebra_simps)
  also have "\<dots> \<le> q * \<bar>a\<bar>"
    by (rule mult_right_mono [OF assms(2)]) simp
  finally show ?thesis by simp
qed

section \<open>Camera offsets return to the centre\<close>

lemma keep_value: "fsub 1 CAMERA_RETURN_SPEED = 1116892707587883 / 1125899906842624"
  by (simp add: CAMERA_RETURN_SPEED_def float_eval)

lemma decay_rnd: "decay a = rnd (a * (1116892707587883 / 1125899906842624))"
  by (simp only: decay_def keep_value fmul_def)

lemma decay_onGrid: "onDoubleGrid (decay a)"
  by (simp only: decay_rnd rnd_onGrid)

lemma decay_iter_onGrid: "onDoubleGrid a \<Longrightarrow> onDoubleGrid ((decay ^^ n) a)"
  by (cases n) (simp_all add: decay_onGrid)

lemma decay_shrink: "onDoubleGrid a \<Longrightarrow> \<bar>decay a\<bar> \<le> \<bar>a\<bar>"
  unfolding decay_rnd by (rule rnd_shrink) simp_all

lemma decay_sign: "(0 \<le> a \<longrightarrow> 0 \<le> decay a) \<and> (a \<le> 0 \<longrightarrow> decay a \<le> 0)"
proof -
  let ?c = "1116892707587883 / 1125899906842624 :: real"
  have "0 \<le> a \<longrightarrow> 0 \<le> a * ?c" by simp
  moreover have "a \<le> 0 \<longrightarrow> a * ?c \<le> 0" by (simp add: mult_nonpos_nonneg)
  ultimately show ?thesis using rnd_sign [of "a * ?c"] by (simp only: decay_rnd) blast
qed

lemma decay_iter_sign:
  "(0 \<le> a \<longrightarrow> 0 \<le> (decay ^^ n) a) \<and> (a \<le> 0 \<longrightarrow> (decay ^^ n) a \<le> 0)"
proof (induction n)
  case 0
  show ?case by simp
next
  case (Suc n)
  then show ?case using decay_sign [of "(decay ^^ n) a"] by simp
qed

lemma decay_contract: "\<bar>decay a\<bar> \<le> 993 / 1000 * \<bar>a\<bar> + pow2 (- 1075)"
  unfolding decay_rnd by (rule rnd_contract) simp_all

lemma decay_iter_shrink:
  assumes "onDoubleGrid a"
  shows "\<bar>(decay ^^ (m + n)) a\<bar> \<le> \<bar>(decay ^^ m) a\<bar>"
proof (induction n)
  case 0
  show ?case by simp
next
  case (Suc n)
  have "\<bar>(decay ^^ (m + Suc n)) a\<bar> = \<bar>decay ((decay ^^ (m + n)) a)\<bar>" by simp
  also have "\<dots> \<le> \<bar>(decay ^^ (m + n)) a\<bar>"
    by (rule decay_shrink [OF decay_iter_onGrid [OF assms]])
  finally show ?case using Suc by linarith
qed

lemma tolerance_gap: "pow2 (- 1075) * (1000 / 7) < pow2 (- 1067)"
proof -
  have "(- 1067 :: int) = - 1075 + 8" by simp
  then have "pow2 (- 1067) = pow2 (- 1075) * pow2 8" by (simp only: pow2_add)
  moreover have "pow2 8 = 256" by (simp add: pow2_def)
  ultimately show ?thesis using pow2_pos [of "- 1075"] by simp
qed

lemma decay_excess:
  "\<bar>(decay ^^ n) a\<bar> - pow2 (- 1075) * (1000 / 7)
   \<le> (993 / 1000) ^ n * (\<bar>a\<bar> - pow2 (- 1075) * (1000 / 7))"
proof (induction n)
  case 0
  show ?case by simp
next
  case (Suc n)
  let ?b = "pow2 (- 1075) * (1000 / 7)"
  have "\<bar>(decay ^^ Suc n) a\<bar> - ?b \<le> 993 / 1000 * \<bar>(decay ^^ n) a\<bar> + pow2 (- 1075) - ?b"
    using decay_contract [of "(decay ^^ n) a"] by simp
  also have "\<dots> = 993 / 1000 * (\<bar>(decay ^^ n) a\<bar> - ?b)" by (simp add: algebra_simps)
  also have "\<dots> \<le> 993 / 1000 * ((993 / 1000) ^ n * (\<bar>a\<bar> - ?b))"
    by (rule mult_left_mono [OF Suc]) simp
  finally show ?case by simp
qed

lemma decay_reaches_tolerance:
  assumes "onDoubleGrid a"
  shows "\<exists>N. \<forall>n\<ge>N. \<bar>(decay ^^ n) a\<bar> < pow2 (- 1067)"
proof -
  let ?b = "pow2 (- 1075) * (1000 / 7)"
  let ?g = "pow2 (- 1067) - ?b"
  have g: "0 < ?g" using tolerance_gap by simp
  have "\<exists>N. \<bar>(decay ^^ N) a\<bar> < pow2 (- 1067)"
  proof (cases "\<bar>a\<bar> - ?b \<le> 0")
    case True
    then have "\<bar>(decay ^^ 0) a\<bar> < pow2 (- 1067)" using g by simp
    then show ?thesis by blast
  next
    case False
    then have e0: "0 < \<bar>a\<bar> - ?b" by simp
    then have "0 < ?g / (\<bar>a\<bar> - ?b)" using g by simp
    then obtain N where N: "(993 / 1000 :: real) ^ N < ?g / (\<bar>a\<bar> - ?b)"
      using real_arch_pow_inv [of "?g / (\<bar>a\<bar> - ?b)" "993 / 1000"] by auto
    then have "(993 / 1000) ^ N * (\<bar>a\<bar> - ?b) < ?g"
      using e0 by (simp add: pos_less_divide_eq)
    then have "\<bar>(decay ^^ N) a\<bar> < pow2 (- 1067)"
      using decay_excess [of N a] by linarith
    then show ?thesis by blast
  qed
  then obtain N where N: "\<bar>(decay ^^ N) a\<bar> < pow2 (- 1067)" by blast
  have "\<forall>n\<ge>N. \<bar>(decay ^^ n) a\<bar> < pow2 (- 1067)"
  proof (intro allI impI)
    fix n assume "N \<le> n"
    then obtain d where "n = N + d" using le_Suc_ex by blast
    then show "\<bar>(decay ^^ n) a\<bar> < pow2 (- 1067)"
      using decay_iter_shrink [OF assms, of N d] N by simp
  qed
  then show ?thesis by blast
qed

lemma updateCamera_released:
  assumes "avatar s \<noteq> None"
    and "\<not> cameraLeft (controls s)" "\<not> cameraRight (controls s)"
    and "\<not> cameraUp (controls s)" "\<not> cameraDown (controls s)"
  shows "updateCamera s = s\<lparr>cameraAngleY := decay (cameraAngleY s),
                             cameraAngleX := decay (cameraAngleX s)\<rparr>"
  using assms by (auto simp: updateCamera_def Let_def decay_def)

lemma updateCamera_released_iter:
  assumes "avatar s \<noteq> None"
    and "\<not> cameraLeft (controls s)" "\<not> cameraRight (controls s)"
    and "\<not> cameraUp (controls s)" "\<not> cameraDown (controls s)"
  shows "(updateCamera ^^ n) s = s\<lparr>cameraAngleY := (decay ^^ n) (cameraAngleY s),
                                    cameraAngleX := (decay ^^ n) (cameraAngleX s)\<rparr>"
proof (induction n)
  case 0
  show ?case by simp
next
  case (Suc n)
  let ?t = "s\<lparr>cameraAngleY := (decay ^^ n) (cameraAngleY s),
               cameraAngleX := (decay ^^ n) (cameraAngleX s)\<rparr>"
  have "updateCamera ?t = ?t\<lparr>cameraAngleY := decay (cameraAngleY ?t),
                              cameraAngleX := decay (cameraAngleX ?t)\<rparr>"
    by (rule updateCamera_released) (simp_all add: assms)
  then show ?case by (simp add: Suc)
qed

text \<open>
  C9. With the four look keys released (and the avatar loaded), every frame multiplies
  both camera offsets by the double \<open>1 - 0.008\<close> and rounds. The magnitudes never
  increase from one frame to the next; an offset that starts non-negative stays
  non-negative and one that starts non-positive stays non-positive; and from some frame on
  both magnitudes stay below \<open>2\<^sup>-\<^sup>1\<^sup>0\<^sup>6\<^sup>7\<close>, about 6e-322. This holds for all initial
  offsets that are doubles, within the clamped ranges or not.
\<close>

theorem camera_offsets_decay:
  assumes "avatar s \<noteq> None"
    and "\<not> cameraLeft (controls s)" "\<not> cameraRight (controls s)"
    and "\<not> cameraUp (controls s)" "\<not> cameraDown (controls s)"
    and "onDoubleGrid (cameraAngleY s)" "onDoubleGrid (cameraAngleX s)"
  shows "(\<forall>n. \<bar>cameraAngleY ((updateCamera ^^ Suc n) s)\<bar> \<le> \<bar>cameraAngleY ((updateCamera ^^ n) s)\<bar>
            \<and> \<bar>cameraAngleX ((updateCamera ^^ Suc n) s)\<bar> \<le> \<bar>cameraAngleX ((updateCamera ^^ n) s)\<bar>)
       \<and> (\<forall>n. (0 \<le> cameraAngleY s \<longrightarrow> 0 \<le> cameraAngleY ((updateCamera ^^ n) s))
            \<and> (cameraAngleY s \<le> 0 \<longrightarrow> cameraAngleY ((updateCamera ^^ n) s) \<le> 0)
            \<and> (0 \<le> cameraAngleX s \<longrightarrow> 0 \<le> cameraAngleX ((updateCamera ^^ n) s))
            \<and> (cameraAngleX s \<le> 0 \<longrightarrow> cameraAngleX ((updateCamera ^^ n) s) \<le> 0))
       \<and> (\<exists>N. \<forall>n\<ge>N. \<bar>cameraAngleY ((updateCamera ^^ n) s)\<bar> < pow2 (- 1067)
                    \<and> \<bar>cameraAngleX ((updateCamera ^^ n) s)\<bar> < pow2 (- 1067))"
proof -
  note it = updateCamera_released_iter [OF assms(1-5)]
  have y: "\<And>n. cameraAngleY ((updateCamera ^^ n) s) = (decay ^^ n) (cameraAngleY s)"
    and x: "\<And>n. cameraAngleX ((updateCamera ^^ n) s) = (decay ^^ n) (cameraAngleX s)"
    by (simp_all add: it)
  have mono: "\<forall>n. \<bar>cameraAngleY ((updateCamera ^^ Suc n) s)\<bar> \<le> \<bar>cameraAngleY ((updateCamera ^^ n) s)\<bar>
            \<and> \<bar>cameraAngleX ((updateCamera ^^ Suc n) s)\<bar> \<le> \<bar>cameraAngleX ((updateCamera ^^ n) s)\<bar>"
  proof
    fix n
    show "\<bar>cameraAngleY ((updateCamera ^^ Suc n) s)\<bar> \<le> \<bar>cameraAngleY ((updateCamera ^^ n) s)\<bar>
            \<and> \<bar>cameraAngleX ((updateCamera ^^ Suc n) s)\<bar> \<le> \<bar>cameraAngleX ((updateCamera ^^ n) s)\<bar>"
    proof -
      have ys: "cameraAngleY ((updateCamera ^^ Suc n) s) = decay ((decay ^^ n) (cameraAngleY s))"
        using y [of "Suc n"] by simp
      have xs: "cameraAngleX ((updateCamera ^^ Suc n) s) = decay ((decay ^^ n) (cameraAngleX s))"
        using x [of "Suc n"] by simp
      show ?thesis
        using decay_shrink [OF decay_iter_onGrid [OF assms(6), of n]]
          decay_shrink [OF decay_iter_onGrid [OF assms(7), of n]]
        by (simp only: ys xs y [of n] x [of n])
    qed
  qed
  have sign: "\<forall>n. (0 \<le> cameraAngleY s \<longrightarrow> 0 \<le> cameraAngleY ((updateCamera ^^ n) s))
            \<and> (cameraAngleY s \<le> 0 \<longrightarrow> cameraAngleY ((updateCamera ^^ n) s) \<le> 0)
            \<and> (0 \<le> cameraAngleX s \<longrightarrow> 0 \<le> cameraAngleX ((updateCamera ^^ n) s))
            \<and> (cameraAngleX s \<le> 0 \<longrightarrow> cameraAngleX ((updateCamera ^^ n) s) \<le> 0)"
    using decay_iter_sign by (simp only: y x) blast
  obtain Ny where Ny: "\<forall>n\<ge>Ny. \<bar>(decay ^^ n) (cameraAngleY s)\<bar> < pow2 (- 1067)"
    using decay_reaches_tolerance [OF assms(6)] by blast
  obtain Nx where Nx: "\<forall>n\<ge>Nx. \<bar>(decay ^^ n) (cameraAngleX s)\<bar> < pow2 (- 1067)"
    using decay_reaches_tolerance [OF assms(7)] by blast
  have "\<forall>n\<ge>max Ny Nx. \<bar>cameraAngleY ((updateCamera ^^ n) s)\<bar> < pow2 (- 1067)
                    \<and> \<bar>cameraAngleX ((updateCamera ^^ n) s)\<bar> < pow2 (- 1067)"
    using Ny Nx by (simp add: y x)
  then have lim: "\<exists>N. \<forall>n\<ge>N. \<bar>cameraAngleY ((updateCamera ^^ n) s)\<bar> < pow2 (- 1067)
                    \<and> \<bar>cameraAngleX ((updateCamera ^^ n) s)\<bar> < pow2 (- 1067)"
    by blast
  from mono sign lim show ?thesis by blast
qed

lemma one_onGrid: "onDoubleGrid 1" "onDoubleGrid (- 1)"
proof -
  have "(1::real) / pow2 (- 1074) = pow2 1074"
    using pow2_add [of 1074 "- 1074"] pow2_pos [of "- 1074"] by (simp add: pow2_def field_simps)
  then show "onDoubleGrid 1" "onDoubleGrid (- 1)"
    using pow2_Ints [of 1074] by (simp_all add: onDoubleGrid_def)
qed

theorem camera_offsets_decay_witness:
  "avatar (globals0\<lparr>cameraAngleY := - 1, cameraAngleX := 1\<rparr>) \<noteq> None
   \<and> onDoubleGrid (cameraAngleY (globals0\<lparr>cameraAngleY := - 1, cameraAngleX := 1\<rparr>))
   \<and> \<bar>cameraAngleY ((updateCamera ^^ Suc 0) (globals0\<lparr>cameraAngleY := - 1, cameraAngleX := 1\<rparr>))\<bar>
       \<le> \<bar>cameraAngleY ((updateCamera ^^ 0) (globals0\<lparr>cameraAngleY := - 1, cameraAngleX := 1\<rparr>))\<bar>
   \<and> cameraAngleY ((updateCamera ^^ 5) (globals0\<lparr>cameraAngleY := - 1, cameraAngleX := 1\<rparr>)) \<le> 0
   \<and> 0 \<le> cameraAngleX ((updateCamera ^^ 5) (globals0\<lparr>cameraAngleY := - 1, cameraAngleX := 1\<rparr>))"
proof -
  let ?s = "globals0\<lparr>cameraAngleY := - 1, cameraAngleX := 1\<rparr>"
  have a: "avatar ?s \<noteq> None"
    and c: "\<not> cameraLeft (controls ?s)" "\<not> cameraRight (controls ?s)"
      "\<not> cameraUp (controls ?s)" "\<not> cameraDown (controls ?s)"
    by (simp_all add: globals0_def)
  have gy: "onDoubleGrid (cameraAngleY ?s)" and gx: "onDoubleGrid (cameraAngleX ?s)"
    by (simp_all add: one_onGrid)
  have y0: "cameraAngleY ?s \<le> 0" and x0: "0 \<le> cameraAngleX ?s" by simp_all
  from camera_offsets_decay [OF a c gy gx] a gy y0 x0 show ?thesis by blast
qed

section \<open>A moon in front of a farther planet\<close>

lemma moon_hits:
  "intersectObjects moonThenSpheres [nearCommon, farRare]
   = [\<lparr>distance = 2389, parent = farRare, child = 2\<rparr>,
      \<lparr>distance = 2550, parent = nearCommon, child = 0\<rparr>,
      \<lparr>distance = 2701, parent = farRare, child = 0\<rparr>]"
  by (simp add: intersectObjects_def moonThenSpheres_def nearCommon_def farRare_def
      upt_conv_Cons eval_nat_numeral)

text \<open>
  C5. Two planets lie along a firing ray: a common planet whose sphere is met at 2550
  and a rare planet whose sphere is met at 2701, one of its moons at 2389. The frame
  destroys the rare planet, the farther of the two, and leaves the nearer common planet
  in the registry; it scores the fallback 10, and \<open>updateLaser\<close> ends with a TypeError.
\<close>

theorem moon_hit_destroys_farther_planet:
  "moonThenSpheres nearCommon 0 = [2550]
   \<and> moonThenSpheres farRare 0 = [2701]
   \<and> planets (firingAt [nearCommon, farRare]) = [nearCommon, farRare]
   \<and> score (firingAt [nearCommon, farRare]) = 0
   \<and> planets (snd (updateLaser moonThenSpheres (firingAt [nearCommon, farRare]))) = [nearCommon]
   \<and> score (snd (updateLaser moonThenSpheres (firingAt [nearCommon, farRare]))) = 10
   \<and> fst (updateLaser moonThenSpheres (firingAt [nearCommon, farRare])) = TypeError"
proof -
  let ?s = "firingAt [nearCommon, farRare]"
  have a: "avatar ?s \<noteq> None" and b: "avatarHead ?s \<noteq> None" and c: "laserActive ?s"
    and d: "laser ?s \<noteq> None" and p: "planets ?s = [nearCommon, farRare]"
    and s: "score ?s = 0"
    by (simp_all add: firingAt_def globals0_def)
  have h: "intersectObjects moonThenSpheres (planets ?s)
           = \<lparr>distance = 2389, parent = farRare, child = 2\<rparr>
             # [\<lparr>distance = 2550, parent = nearCommon, child = 0\<rparr>,
                \<lparr>distance = 2701, parent = farRare, child = 0\<rparr>]"
    by (simp add: p moon_hits)
  have ne: "nearCommon \<noteq> farRare" by (simp add: nearCommon_def farRare_def)
  have r: "moonThenSpheres nearCommon 0 = [2550]" "moonThenSpheres farRare 0 = [2701]"
    by (simp_all add: moonThenSpheres_def nearCommon_def farRare_def)
  from updateLaser_hit [OF a b c d h] show ?thesis
    by (simp add: p s r ne pointsFor_def objectUserData_def)
qed

section \<open>What a maintenance pass creates and removes\<close>











end
